theory Spec2Isabelle
  imports Main "HOL-Library.Word"
begin

unbundle bit_operations_syntax

section \<open>Bytes, slices and the Go standard library\<close>

type_synonym byte = "8 word"

text \<open>Go's \<^verbatim>\<open>xs[lo:hi]\<close>, used only where the source has checked the bounds.\<close>

definition slice :: "nat \<Rightarrow> nat \<Rightarrow> 'a list \<Rightarrow> 'a list" where
  "slice lo hi xs = take (hi - lo) (drop lo xs)"

text \<open>\<^verbatim>\<open>encoding/binary\<close>: big-endian and little-endian integers of 2 and 4 bytes.\<close>

definition BigEndian_PutUint16 :: "16 word \<Rightarrow> byte list" where
  "BigEndian_PutUint16 v = [ucast (drop_bit 8 v), ucast v]"

definition BigEndian_PutUint32 :: "32 word \<Rightarrow> byte list" where
  "BigEndian_PutUint32 v =
     [ucast (drop_bit 24 v), ucast (drop_bit 16 v), ucast (drop_bit 8 v), ucast v]"

definition BigEndian_Uint16 :: "byte list \<Rightarrow> 16 word" where
  "BigEndian_Uint16 b = ucast (b ! 1) OR push_bit 8 (ucast (b ! 0))"

definition BigEndian_Uint32 :: "byte list \<Rightarrow> 32 word" where
  "BigEndian_Uint32 b =
     ucast (b ! 3) OR push_bit 8 (ucast (b ! 2)) OR push_bit 16 (ucast (b ! 1))
       OR push_bit 24 (ucast (b ! 0))"

definition LittleEndian_Uint32 :: "byte list \<Rightarrow> 32 word" where
  "LittleEndian_Uint32 b =
     ucast (b ! 0) OR push_bit 8 (ucast (b ! 1)) OR push_bit 16 (ucast (b ! 2))
       OR push_bit 24 (ucast (b ! 3))"

text \<open>
  \<^verbatim>\<open>net.IP\<close> is a byte slice; \<open>None\<close> is the nil slice. \<^verbatim>\<open>net.IPv4(a, b, c, d)\<close> builds the
  16-byte form with the IPv4-in-IPv6 prefix, and \<^verbatim>\<open>To4\<close> gives the 4-byte form of an
  address that has one, nil otherwise.
\<close>

type_synonym IP = "byte list option"

definition v4InV6Prefix :: "byte list" where
  "v4InV6Prefix = [0, 0, 0, 0, 0, 0, 0, 0, 0, 0, 0xff, 0xff]"

definition IPv4 :: "byte \<Rightarrow> byte \<Rightarrow> byte \<Rightarrow> byte \<Rightarrow> IP" where
  "IPv4 a b c d = Some (v4InV6Prefix @ [a, b, c, d])"

definition IPv4zero :: IP where
  "IPv4zero = IPv4 0 0 0 0"

definition isZeros :: "byte list \<Rightarrow> bool" where
  "isZeros p = list_all (\<lambda>b. b = 0) p"

definition To4 :: "IP \<Rightarrow> IP" where
  "To4 ip =
     (case ip of
        None \<Rightarrow> None
      | Some bs \<Rightarrow>
          if length bs = 4 then Some bs
          else if length bs = 16 \<and> isZeros (slice 0 10 bs) \<and> bs ! 10 = 0xff \<and> bs ! 11 = 0xff
               then Some (slice 12 16 bs)
          else None)"

text \<open>\<^verbatim>\<open>append(ret, ip...)\<close>: appending the nil slice appends nothing.\<close>

definition ip_bytes :: "IP \<Rightarrow> byte list" where
  "ip_bytes ip = (case ip of None \<Rightarrow> [] | Some bs \<Rightarrow> bs)"

text \<open>
  \<^verbatim>\<open>net.IP.Equal\<close> of the Go standard library: an IPv4 address and the same address in its
  16-byte form are equal.
\<close>

definition IP_Equal :: "IP \<Rightarrow> IP \<Rightarrow> bool" where
  "IP_Equal ip x =
     (let a = ip_bytes ip; b = ip_bytes x
      in if length a = length b then a = b
         else if length a = 4 \<and> length b = 16
           then slice 0 12 b = v4InV6Prefix \<and> a = slice 12 16 b
         else if length a = 16 \<and> length b = 4
           then slice 0 12 a = v4InV6Prefix \<and> slice 12 16 a = b
         else False)"

section \<open>Errors\<close>

datatype error =
    ErrRandomShort       \<comment> \<open>Invalid random sequence: smaller than 32 bits\<close>
  | ErrRandom            \<comment> \<open>the error reported by the random source\<close>
  | ErrHeaderTooShort    \<comment> \<open>Invalid DHCPv4 header: shorter than 236 bytes\<close>
  | ErrMissingServerIP   \<comment> \<open>Missing Server IP Address in DHCP Offer\<close>
  | ErrOptionsTooShort   \<comment> \<open>option area shorter than the magic cookie\<close>
  | ErrMagicCookie       \<comment> \<open>option area does not start with the magic cookie\<close>
  | ErrOptionTruncated   \<comment> \<open>an option claims more bytes than are available\<close>
  | ErrOptionShape       \<comment> \<open>the value of an option has the wrong shape for its code\<close>
  | ErrIAPrefixTooShort  \<comment> \<open>Invalid IA for Prefix Delegation data length\<close>
  | ErrTimeout           \<comment> \<open>timed out while listening for replies\<close>
  | ErrSocket            \<comment> \<open>an error reported by a socket operation\<close>
  | Panic                \<comment> \<open>a Go run-time panic: nil dereference, failed type assertion\<close>

section \<open>DHCPv4 options\<close>

type_synonym OptionCode = byte
type_synonym MessageType = byte
type_synonym OpcodeType = byte

text \<open>
  Modelled from the spec: the option codes, message types and opcodes. Their declarations are
  in a file of the package that is not among the sources; the spec names them and fixes
  \<open>Pad = 0\<close>, \<open>End = 255\<close>, \<open>BOOTREQUEST = 1\<close>, \<open>BOOTREPLY = 2\<close>; the other numbers are
  those of RFC 2132, which the spec refers to.
\<close>

definition OptionPad :: OptionCode where "OptionPad = 0"
definition OptionRequestedIPAddress :: OptionCode where "OptionRequestedIPAddress = 50"
definition OptionDHCPMessageType :: OptionCode where "OptionDHCPMessageType = 53"
definition OptionServerIdentifier :: OptionCode where "OptionServerIdentifier = 54"
definition OptionParameterRequestList :: OptionCode where "OptionParameterRequestList = 55"
definition OptionTFTPServerName :: OptionCode where "OptionTFTPServerName = 66"
definition OptionBootfileName :: OptionCode where "OptionBootfileName = 67"
definition OptionUserClassInformation :: OptionCode where "OptionUserClassInformation = 77"
definition OptionEnd :: OptionCode where "OptionEnd = 255"

definition MessageTypeNone :: MessageType where "MessageTypeNone = 0"
definition MessageTypeOffer :: MessageType where "MessageTypeOffer = 2"
definition MessageTypeRequest :: MessageType where "MessageTypeRequest = 3"
definition MessageTypeInform :: MessageType where "MessageTypeInform = 8"

definition OpcodeBootRequest :: OpcodeType where "OpcodeBootRequest = 1"
definition OpcodeBootReply :: OpcodeType where "OpcodeBootReply = 2"

definition HwTypeEthernet :: byte where "HwTypeEthernet = 1"

definition MagicCookie :: "byte list" where
  "MagicCookie = [99, 130, 83, 99]"

text \<open>
  Modelled from the spec: the \<^verbatim>\<open>Option\<close> interface and its implementations, which are in
  files of the package that are not among the sources. The variants are the ones the
  constructors and modifiers of \<^verbatim>\<open>dhcpv4.go\<close> and \<^verbatim>\<open>modifiers.go\<close> build and inspect, with the
  field names used there: \<^verbatim>\<open>OptionGeneric{OptionCode}\<close> (also the carrier of \<open>Pad\<close>,
  \<open>End\<close> and unknown codes, with its bytes), \<^verbatim>\<open>OptMessageType{MessageType}\<close>,
  \<^verbatim>\<open>OptParameterRequestList{RequestedOpts}\<close>, \<^verbatim>\<open>OptRequestedIPAddress{RequestedAddr}\<close>,
  \<^verbatim>\<open>OptServerIdentifier{ServerID}\<close> and \<^verbatim>\<open>OptUserClass{UserClasses, Rfc3004}\<close>.
\<close>

datatype Option =
    OptionGeneric OptionCode "byte list"
  | OptMessageType MessageType
  | OptParameterRequestList "OptionCode list"
  | OptRequestedIPAddress IP
  | OptServerIdentifier IP
  | OptUserClass "byte list list" bool

text \<open>Modelled from the spec: \<^verbatim>\<open>Option.Code()\<close>, the code of each variant.\<close>

fun Code :: "Option \<Rightarrow> OptionCode" where
  "Code (OptionGeneric c _) = c"
| "Code (OptMessageType _) = OptionDHCPMessageType"
| "Code (OptParameterRequestList _) = OptionParameterRequestList"
| "Code (OptRequestedIPAddress _) = OptionRequestedIPAddress"
| "Code (OptServerIdentifier _) = OptionServerIdentifier"
| "Code (OptUserClass _ _) = OptionUserClassInformation"

text \<open>
  Modelled from the spec: the value of a user class option (spec 3.4). With \<^verbatim>\<open>Rfc3004\<close> set
  each identifier is preceded by its length in one byte; without it the identifiers are
  concatenated as they are.
\<close>

definition UserClass_value :: "byte list list \<Rightarrow> bool \<Rightarrow> byte list" where
  "UserClass_value ucs rfc =
     (if rfc then concat (map (\<lambda>uc. of_nat (length uc) # uc) ucs) else concat ucs)"

text \<open>
  Modelled from the spec: \<^verbatim>\<open>Option.ToBytes()\<close>. Each variant emits its code, then its
  length in one byte, then its value; \<open>Pad\<close> and \<open>End\<close> are the code alone.
\<close>

definition tlv :: "OptionCode \<Rightarrow> byte list \<Rightarrow> byte list" where
  "tlv c v = c # of_nat (length v) # v"

fun Option_ToBytes :: "Option \<Rightarrow> byte list" where
  "Option_ToBytes (OptionGeneric c v) =
     (if c = OptionPad \<or> c = OptionEnd then [c] else tlv c v)"
| "Option_ToBytes (OptMessageType t) = tlv OptionDHCPMessageType [t]"
| "Option_ToBytes (OptParameterRequestList cs) = tlv OptionParameterRequestList cs"
| "Option_ToBytes (OptRequestedIPAddress ip) = tlv OptionRequestedIPAddress (ip_bytes ip)"
| "Option_ToBytes (OptServerIdentifier ip) = tlv OptionServerIdentifier (ip_bytes ip)"
| "Option_ToBytes (OptUserClass ucs rfc) =
     tlv OptionUserClassInformation (UserClass_value ucs rfc)"

text \<open>
  Modelled from the spec: the parser of the value of a user class option. The spec gives the
  two encodings (3.4) and a parser of its own to the variant (3.3), not how the parser tells
  the encodings apart. Here a value that splits exactly into length-prefixed identifiers,
  none of them empty, is read as the RFC 3004 encoding; any other value is read as one
  identifier in the legacy encoding; an empty value carries no identifier and is a shape
  violation.
\<close>

function ParseUserClasses :: "byte list \<Rightarrow> byte list list option" where
  "ParseUserClasses [] = Some []"
| "ParseUserClasses (n # rest) =
     (if unat n = 0 \<or> length rest < unat n then None
      else
        (case ParseUserClasses (drop (unat n) rest) of
           None \<Rightarrow> None
         | Some ucs \<Rightarrow> Some (take (unat n) rest # ucs)))"
  by pat_completeness auto
termination
  by (relation "measure length") auto

definition ParseOptUserClass :: "byte list \<Rightarrow> error + Option" where
  "ParseOptUserClass v =
     (if v = [] then Inl ErrOptionShape
      else
        (case ParseUserClasses v of
           Some ucs \<Rightarrow> Inr (OptUserClass ucs True)
         | None \<Rightarrow> Inr (OptUserClass [v] False)))"

text \<open>
  Modelled from the spec: the parser of one option value, chosen by the code; an unknown
  code gives \<^verbatim>\<open>OptionGeneric\<close>. A message type is one byte, a server identifier and a
  requested address are exactly four bytes, a parameter request list is a sequence of codes,
  a user class has the parser above.
\<close>

definition ParseOptionValue :: "OptionCode \<Rightarrow> byte list \<Rightarrow> error + Option" where
  "ParseOptionValue c v =
     (if c = OptionDHCPMessageType then
        (case v of [t] \<Rightarrow> Inr (OptMessageType t) | _ \<Rightarrow> Inl ErrOptionShape)
      else if c = OptionParameterRequestList then Inr (OptParameterRequestList v)
      else if c = OptionRequestedIPAddress then
        (if length v = 4 then Inr (OptRequestedIPAddress (Some v)) else Inl ErrOptionShape)
      else if c = OptionServerIdentifier then
        (if length v = 4 then Inr (OptServerIdentifier (Some v)) else Inl ErrOptionShape)
      else if c = OptionUserClassInformation then ParseOptUserClass v
      else Inr (OptionGeneric c v))"

text \<open>
  Modelled from the spec: the option parser (spec 4.2), on a byte slice positioned at the
  first option. A zero byte is a \<open>Pad\<close> option of one byte; 255 is \<open>End\<close>, and parsing stops
  there; otherwise a code, a length byte and that many value bytes. Parsing goes on until
  \<open>End\<close> or the end of the buffer; a short buffer or a malformed value fails the whole parse.
\<close>

function ParseOptions :: "byte list \<Rightarrow> error + Option list" where
  "ParseOptions [] = Inr []"
| "ParseOptions (c # rest) =
     (if c = OptionPad then
        (case ParseOptions rest of
           Inl e \<Rightarrow> Inl e
         | Inr opts \<Rightarrow> Inr (OptionGeneric OptionPad [] # opts))
      else if c = OptionEnd then Inr [OptionGeneric OptionEnd []]
      else
        (case rest of
           [] \<Rightarrow> Inl ErrOptionTruncated
         | n # payload \<Rightarrow>
             if length payload < unat n then Inl ErrOptionTruncated
             else
               (case ParseOptionValue c (take (unat n) payload) of
                  Inl e \<Rightarrow> Inl e
                | Inr opt \<Rightarrow>
                    (case ParseOptions (drop (unat n) payload) of
                       Inl e \<Rightarrow> Inl e
                     | Inr opts \<Rightarrow> Inr (opt # opts)))))"
  by pat_completeness auto
termination
  by (relation "measure length") auto

text \<open>
  Modelled from the spec: \<^verbatim>\<open>OptionsFromBytes\<close>, which is given the bytes after the 236-byte
  header: the magic cookie, then the options. \<^verbatim>\<open>New\<close> calls it on the magic cookie alone
  and adds \<open>End\<close> to its result.
\<close>

definition OptionsFromBytes :: "byte list \<Rightarrow> error + Option list" where
  "OptionsFromBytes data =
     (if length data < length MagicCookie then Inl ErrOptionsTooShort
      else if take (length MagicCookie) data \<noteq> MagicCookie then Inl ErrMagicCookie
      else ParseOptions (drop (length MagicCookie) data))"

section \<open>The DHCPv4 message\<close>

text \<open>
  The struct \<^verbatim>\<open>DHCPv4\<close>. The fixed arrays \<^verbatim>\<open>[16]byte\<close>, \<^verbatim>\<open>[64]byte\<close> and \<^verbatim>\<open>[128]byte\<close> are
  lists; \<open>array_sizes\<close> is what their Go types say about their lengths.
\<close>

definition HeaderSize :: nat where
  "HeaderSize = 236"

record DHCPv4 =
  opcode :: OpcodeType
  hwType :: byte
  hwAddrLen :: byte
  hopCount :: byte
  transactionID :: "32 word"
  numSeconds :: "16 word"
  flags :: "16 word"
  clientIPAddr :: IP
  yourIPAddr :: IP
  serverIPAddr :: IP
  gatewayIPAddr :: IP
  clientHwAddr :: "byte list"
  serverHostName :: "byte list"
  bootFileName :: "byte list"
  options :: "Option list"

definition array_sizes :: "DHCPv4 \<Rightarrow> bool" where
  "array_sizes d \<longleftrightarrow>
     length (clientHwAddr d) = 16 \<and> length (serverHostName d) = 64
       \<and> length (bootFileName d) = 128"

text \<open>
  \<^verbatim>\<open>AddOption\<close>: appends, or, when the last option has the code \<open>End\<close>, puts the new option
  in its place and appends that last option again.
\<close>

definition AddOption :: "Option \<Rightarrow> DHCPv4 \<Rightarrow> DHCPv4" where
  "AddOption option d =
     (if length (options d) = 0 \<or> Code (options d ! (length (options d) - 1)) \<noteq> OptionEnd
      then d\<lparr>options := options d @ [option]\<rparr>
      else
        (let end = options d ! (length (options d) - 1)
         in d\<lparr>options := (options d)[length (options d) - 1 := option] @ [end]\<rparr>))"

text \<open>\<^verbatim>\<open>FromBytes\<close>: the parser of a DHCPv4 packet.\<close>

definition FromBytes :: "byte list \<Rightarrow> error + DHCPv4" where
  "FromBytes data =
     (if length data < HeaderSize then Inl ErrHeaderTooShort
      else
        (case OptionsFromBytes (drop 236 data) of
           Inl e \<Rightarrow> Inl e
         | Inr opts \<Rightarrow>
             Inr \<lparr>opcode = data ! 0,
                  hwType = data ! 1,
                  hwAddrLen = data ! 2,
                  hopCount = data ! 3,
                  transactionID = BigEndian_Uint32 (slice 4 8 data),
                  numSeconds = BigEndian_Uint16 (slice 8 10 data),
                  flags = BigEndian_Uint16 (slice 10 12 data),
                  clientIPAddr = Some (slice 12 16 data),
                  yourIPAddr = Some (slice 16 20 data),
                  serverIPAddr = Some (slice 20 24 data),
                  gatewayIPAddr = Some (slice 24 28 data),
                  clientHwAddr = slice 28 44 data,
                  serverHostName = slice 44 108 data,
                  bootFileName = slice 108 236 data,
                  options = opts\<rparr>))"

text \<open>
  \<^verbatim>\<open>ToBytes\<close>: the wire format. \<open>header_bytes\<close> is everything it appends before the magic
  cookie; the validation pass it runs only logs warnings.
\<close>

definition header_bytes :: "DHCPv4 \<Rightarrow> byte list" where
  "header_bytes d =
     [opcode d, hwType d, hwAddrLen d, hopCount d]
     @ BigEndian_PutUint32 (transactionID d)
     @ BigEndian_PutUint16 (numSeconds d)
     @ BigEndian_PutUint16 (flags d)
     @ ip_bytes (To4 (clientIPAddr d))
     @ ip_bytes (To4 (yourIPAddr d))
     @ ip_bytes (To4 (serverIPAddr d))
     @ ip_bytes (To4 (gatewayIPAddr d))
     @ slice 0 16 (clientHwAddr d)
     @ slice 0 64 (serverHostName d)
     @ slice 0 128 (bootFileName d)"

definition ToBytes :: "DHCPv4 \<Rightarrow> byte list" where
  "ToBytes d = header_bytes d @ MagicCookie @ concat (map Option_ToBytes (options d))"

subsection \<open>Accessors and setters\<close>

definition SetOpcode :: "OpcodeType \<Rightarrow> DHCPv4 \<Rightarrow> DHCPv4" where
  "SetOpcode v d = d\<lparr>opcode := v\<rparr>"

definition SetHwType :: "byte \<Rightarrow> DHCPv4 \<Rightarrow> DHCPv4" where
  "SetHwType v d = d\<lparr>hwType := v\<rparr>"

definition SetHwAddrLen :: "byte \<Rightarrow> DHCPv4 \<Rightarrow> DHCPv4" where
  "SetHwAddrLen v d = d\<lparr>hwAddrLen := (if v > 16 then 16 else v)\<rparr>"

definition SetTransactionID :: "32 word \<Rightarrow> DHCPv4 \<Rightarrow> DHCPv4" where
  "SetTransactionID v d = d\<lparr>transactionID := v\<rparr>"

definition IsBroadcast :: "DHCPv4 \<Rightarrow> bool" where
  "IsBroadcast d \<longleftrightarrow> flags d AND 0x8000 = 0x8000"

definition SetBroadcast :: "DHCPv4 \<Rightarrow> DHCPv4" where
  "SetBroadcast d = d\<lparr>flags := flags d OR 0x8000\<rparr>"

definition IsUnicast :: "DHCPv4 \<Rightarrow> bool" where
  "IsUnicast d \<longleftrightarrow> flags d AND 0x8000 = 0"

definition SetUnicast :: "DHCPv4 \<Rightarrow> DHCPv4" where
  "SetUnicast d = d\<lparr>flags := flags d AND NOT 0x8000\<rparr>"

definition SetClientIPAddr :: "IP \<Rightarrow> DHCPv4 \<Rightarrow> DHCPv4" where
  "SetClientIPAddr v d = d\<lparr>clientIPAddr := v\<rparr>"

definition SetYourIPAddr :: "IP \<Rightarrow> DHCPv4 \<Rightarrow> DHCPv4" where
  "SetYourIPAddr v d = d\<lparr>yourIPAddr := v\<rparr>"

definition SetServerIPAddr :: "IP \<Rightarrow> DHCPv4 \<Rightarrow> DHCPv4" where
  "SetServerIPAddr v d = d\<lparr>serverIPAddr := v\<rparr>"

definition SetGatewayIPAddr :: "IP \<Rightarrow> DHCPv4 \<Rightarrow> DHCPv4" where
  "SetGatewayIPAddr v d = d\<lparr>gatewayIPAddr := v\<rparr>"

text \<open>
  \<^verbatim>\<open>SetClientHwAddr\<close>: at most 16 bytes of the address are copied, the rest of the array is
  zeroed.
\<close>

definition SetClientHwAddr :: "byte list \<Rightarrow> DHCPv4 \<Rightarrow> DHCPv4" where
  "SetClientHwAddr hw d =
     (let hw' = (if length hw > 16 then slice 0 16 hw else hw)
      in d\<lparr>clientHwAddr := hw' @ replicate (16 - length hw') 0\<rparr>)"

text \<open>\<^verbatim>\<open>GetOneOption\<close>: the first option with the code, or nil.\<close>

definition GetOneOption :: "DHCPv4 \<Rightarrow> OptionCode \<Rightarrow> Option option" where
  "GetOneOption d code = find (\<lambda>opt. Code opt = code) (options d)"

text \<open>
  \<^verbatim>\<open>MessageType\<close>: the type in the first option with the message type code, nil when there
  is none; the type assertion panics on an option of another variant.
\<close>

definition MessageType :: "DHCPv4 \<Rightarrow> error + MessageType option" where
  "MessageType d =
     (case GetOneOption d OptionDHCPMessageType of
        None \<Rightarrow> Inr None
      | Some (OptMessageType t) \<Rightarrow> Inr (Some t)
      | Some _ \<Rightarrow> Inl Panic)"

subsection \<open>Constructors\<close>

text \<open>
  The random source is an input: the bytes \<^verbatim>\<open>rand.Read\<close> wrote into the 4-byte buffer (their
  number is its first result) and whether it reported an error.
\<close>

record RandRead =
  written :: "byte list"
  failed :: bool

definition GenerateTransactionID :: "RandRead \<Rightarrow> error + 32 word" where
  "GenerateTransactionID r =
     (let b = take 4 (written r @ replicate 4 0); n = length (take 4 (written r))
      in if n \<noteq> 4 then Inl ErrRandomShort
         else if failed r then Inl ErrRandom
         else Inr (LittleEndian_Uint32 b))"

definition New :: "RandRead \<Rightarrow> error + DHCPv4" where
  "New r =
     (case GenerateTransactionID r of
        Inl e \<Rightarrow> Inl e
      | Inr tid \<Rightarrow>
          (let d = \<lparr>opcode = OpcodeBootRequest,
                    hwType = HwTypeEthernet,
                    hwAddrLen = 6,
                    hopCount = 0,
                    transactionID = tid,
                    numSeconds = 0,
                    flags = 0,
                    clientIPAddr = IPv4zero,
                    yourIPAddr = IPv4zero,
                    serverIPAddr = IPv4zero,
                    gatewayIPAddr = IPv4zero,
                    clientHwAddr = replicate 16 0,
                    serverHostName = replicate 64 0,
                    bootFileName = replicate 128 0,
                    options = []\<rparr>
           in case OptionsFromBytes MagicCookie of
                Inl e \<Rightarrow> Inl e
              | Inr opts \<Rightarrow> Inr (AddOption (OptionGeneric OptionEnd []) (d\<lparr>options := opts\<rparr>))))"

definition NewInform :: "RandRead \<Rightarrow> byte list \<Rightarrow> IP \<Rightarrow> error + DHCPv4" where
  "NewInform r hwaddr localIP =
     (case New r of
        Inl e \<Rightarrow> Inl e
      | Inr d0 \<Rightarrow>
          (let d1 = SetOpcode OpcodeBootRequest d0;
               d2 = SetHwType HwTypeEthernet d1;
               d3 = SetHwAddrLen (of_nat (length hwaddr)) d2;
               d4 = SetClientHwAddr hwaddr d3;
               d5 = SetClientIPAddr localIP d4
           in Inr (AddOption (OptMessageType MessageTypeInform) d5)))"

text \<open>
  A \<^verbatim>\<open>Modifier\<close> is a function on messages; it may panic. \<^verbatim>\<open>NewRequestFromOffer\<close> applies
  its modifiers from left to right.
\<close>

type_synonym Modifier = "DHCPv4 \<Rightarrow> error + DHCPv4"

fun apply_modifiers :: "Modifier list \<Rightarrow> DHCPv4 \<Rightarrow> error + DHCPv4" where
  "apply_modifiers [] d = Inr d"
| "apply_modifiers (m # ms) d =
     (case m d of Inl e \<Rightarrow> Inl e | Inr d' \<Rightarrow> apply_modifiers ms d')"

text \<open>
  The loop of \<^verbatim>\<open>NewRequestFromOffer\<close> over the options of the offer: every option with the
  server identifier code overwrites \<^verbatim>\<open>serverIP\<close>, which starts as nil; the loop has no
  \<^verbatim>\<open>break\<close>. The type assertion panics on an option of another variant.
\<close>

fun find_serverIP :: "Option list \<Rightarrow> IP \<Rightarrow> error + IP" where
  "find_serverIP [] serverIP = Inr serverIP"
| "find_serverIP (opt # opts) serverIP =
     (if Code opt = OptionServerIdentifier then
        (case opt of
           OptServerIdentifier sid \<Rightarrow> find_serverIP opts sid
         | _ \<Rightarrow> Inl Panic)
      else find_serverIP opts serverIP)"

definition NewRequestFromOffer :: "RandRead \<Rightarrow> DHCPv4 \<Rightarrow> Modifier list \<Rightarrow> error + DHCPv4" where
  "NewRequestFromOffer r offer modifiers =
     (case New r of
        Inl e \<Rightarrow> Inl e
      | Inr d0 \<Rightarrow>
          (let d1 = SetOpcode OpcodeBootRequest d0;
               d2 = SetHwType (hwType offer) d1;
               d3 = SetHwAddrLen (hwAddrLen offer) d2;
               d4 = SetClientHwAddr (clientHwAddr offer) d3;
               d5 = SetTransactionID (transactionID offer) d4;
               d6 = (if IsBroadcast offer then SetBroadcast d5 else SetUnicast d5)
           in case find_serverIP (options offer) None of
                Inl e \<Rightarrow> Inl e
              | Inr None \<Rightarrow> Inl ErrMissingServerIP
              | Inr (Some sid) \<Rightarrow>
                  (let serverIP = Some sid;
                       d7 = SetServerIPAddr serverIP d6;
                       d8 = AddOption (OptMessageType MessageTypeRequest) d7;
                       d9 = AddOption (OptRequestedIPAddress (yourIPAddr offer)) d8;
                       d10 = AddOption (OptServerIdentifier serverIP) d9
                   in apply_modifiers modifiers d10)))"

subsection \<open>Modifiers\<close>

text \<open>
  \<^verbatim>\<open>WithUserClass\<close> adds a user class option with the one identifier \<^verbatim>\<open>uc\<close>, in the encoding
  \<^verbatim>\<open>rfc\<close> selects.
\<close>

definition WithUserClass :: "byte list \<Rightarrow> bool \<Rightarrow> Modifier" where
  "WithUserClass uc rfc d = Inr (AddOption (OptUserClass [uc] rfc) d)"

text \<open>
  \<^verbatim>\<open>WithNetboot\<close>. The scan of the requested options sets the two flags; the missing codes
  are appended to the list of the option found, which the message holds by pointer, so the
  first option with the parameter request list code is the one that changes. Without such
  an option a new list is added.
\<close>

fun scan_RequestedOpts :: "OptionCode list \<Rightarrow> bool \<times> bool \<Rightarrow> bool \<times> bool" where
  "scan_RequestedOpts [] found = found"
| "scan_RequestedOpts (option # rest) (foundOptionTFTPServerName, foundOptionBootfileName) =
     scan_RequestedOpts rest
       (if option = OptionTFTPServerName then (True, foundOptionBootfileName)
        else if option = OptionBootfileName then (foundOptionTFTPServerName, True)
        else (foundOptionTFTPServerName, foundOptionBootfileName))"

fun update_first :: "OptionCode \<Rightarrow> Option \<Rightarrow> Option list \<Rightarrow> Option list" where
  "update_first code new [] = []"
| "update_first code new (opt # opts) =
     (if Code opt = code then new # opts else opt # update_first code new opts)"

definition WithNetboot :: Modifier where
  "WithNetboot d =
     (case GetOneOption d OptionParameterRequestList of
        Some params \<Rightarrow>
          (case params of
             OptParameterRequestList requested \<Rightarrow>
               (let (foundOptionTFTPServerName, foundOptionBootfileName) =
                      scan_RequestedOpts requested (False, False);
                    requested1 = (if \<not> foundOptionTFTPServerName
                                  then requested @ [OptionTFTPServerName] else requested);
                    requested2 = (if \<not> foundOptionBootfileName
                                  then requested1 @ [OptionBootfileName] else requested1)
                in Inr (d\<lparr>options := update_first OptionParameterRequestList
                                         (OptParameterRequestList requested2) (options d)\<rparr>))
           | _ \<Rightarrow> Inl Panic)
      | None \<Rightarrow>
          Inr (AddOption (OptParameterRequestList [OptionTFTPServerName, OptionBootfileName]) d))"

text \<open>The requested options of the first parameter request list of a message, if any.\<close>

definition parameter_request_list :: "DHCPv4 \<Rightarrow> OptionCode list option" where
  "parameter_request_list d =
     (case GetOneOption d OptionParameterRequestList of
        Some (OptParameterRequestList requested) \<Rightarrow> Some requested
      | _ \<Rightarrow> None)"

text \<open>What \<^verbatim>\<open>WithNetboot\<close> makes of a list of requested options.\<close>

definition netboot_list :: "OptionCode list \<Rightarrow> OptionCode list" where
  "netboot_list requested =
     requested
     @ (if OptionTFTPServerName \<in> set requested then [] else [OptionTFTPServerName])
     @ (if OptionBootfileName \<in> set requested then [] else [OptionBootfileName])"

section \<open>The receive path of the exchange driver\<close>

text \<open>
  \<^verbatim>\<open>BroadcastSendReceive\<close> starts a goroutine that reads datagrams from the listening socket
  until one is accepted or a read fails, and sends the packet meanwhile. The network is an
  input: the datagrams the socket delivers before the read deadline (after the last one the
  read returns the deadline error), and the outcome of each system call.

  \<open>receive_loop\<close> is the \<^verbatim>\<open>for\<close> loop of the goroutine. Each datagram is read into a buffer of
  \<^verbatim>\<open>MaxUDPReceivedPacketSize\<close> bytes and parsed. The test after \<^verbatim>\<open>FromBytes\<close> is on \<^verbatim>\<open>err\<close>, the
  variable of the enclosing function, which is nil at that point, and not on \<^verbatim>\<open>innerErr\<close>:
  when the parse fails, \<^verbatim>\<open>response\<close> is nil and \<^verbatim>\<open>response.TransactionID()\<close> dereferences it.
\<close>

definition MaxUDPReceivedPacketSize :: nat where
  "MaxUDPReceivedPacketSize = 8192"

fun receive_loop :: "DHCPv4 \<Rightarrow> MessageType \<Rightarrow> byte list list \<Rightarrow> error + DHCPv4" where
  "receive_loop packet messageType [] = Inl ErrSocket"
| "receive_loop packet messageType (datagram # rest) =
     (case FromBytes (take MaxUDPReceivedPacketSize datagram) of
        Inl innerErr \<Rightarrow> Inl Panic
      | Inr response \<Rightarrow>
          if transactionID response \<noteq> transactionID packet
            then receive_loop packet messageType rest
          else if opcode response \<noteq> OpcodeBootReply
            then receive_loop packet messageType rest
          else if messageType = MessageTypeNone then Inr response
          else
            (case MessageType response of
               Inl e \<Rightarrow> Inl e
             | Inr t \<Rightarrow>
                 if t \<noteq> None \<and> the t = messageType then Inr response
                 else receive_loop packet messageType rest))"

text \<open>
  The rest of \<^verbatim>\<open>BroadcastSendReceive\<close>. The same test on the outer \<^verbatim>\<open>err\<close> follows
  \<^verbatim>\<open>net.FileConn\<close>, so a failure there leaves a nil connection, and the first call on it
  panics; a panic of the goroutine ends the program. The caller returns an error when
  building the raw packet or sending it fails, and the time-out error when the timer of its
  \<^verbatim>\<open>select\<close> fires before the goroutine reports (\<open>timer_first\<close>). It returns the response
  only when the goroutine has reported nil, that is after the \<^verbatim>\<open>break\<close> of the loop.
\<close>

record Network =
  marshal_failed :: bool
  fileconn_failed :: bool
  sendto_failed :: bool
  timer_first :: bool
  datagrams :: "byte list list"

definition BroadcastSendReceive :: "Network \<Rightarrow> DHCPv4 \<Rightarrow> MessageType \<Rightarrow> error + DHCPv4" where
  "BroadcastSendReceive net packet messageType =
     (if marshal_failed net then Inl ErrSocket
      else if fileconn_failed net then Inl Panic
      else if sendto_failed net then Inl ErrSocket
      else if timer_first net then Inl ErrTimeout
      else receive_loop packet messageType (datagrams net))"

text \<open>
  What the loop accepts: the transaction id of the packet sent, the opcode \<open>BOOTREPLY\<close> and,
  when a message type is expected, that type in the first message type option.
\<close>

definition accepted :: "DHCPv4 \<Rightarrow> MessageType \<Rightarrow> DHCPv4 \<Rightarrow> bool" where
  "accepted packet messageType response \<longleftrightarrow>
     transactionID response = transactionID packet
     \<and> opcode response = OpcodeBootReply
     \<and> (messageType \<noteq> MessageTypeNone \<longrightarrow> MessageType response = Inr (Some messageType))"

section \<open>The DHCPv6 option IAPrefix\<close>

text \<open>
  Modelled from the spec: \<^verbatim>\<open>OptIAPrefix\<close> and \<^verbatim>\<open>ParseOptIAPrefix\<close> of the package \<^verbatim>\<open>dhcpv6\<close>, of
  which only the tests are among the sources. The payload is a 32-bit preferred lifetime, a
  32-bit valid lifetime, a prefix length of one byte, 16 bytes of prefix and the
  sub-options, which the tests set and read as bytes; a payload of less than 25 bytes is a
  parse error (spec 3.2).
\<close>

record OptIAPrefix =
  preferredLifetime :: "32 word"
  validLifetime :: "32 word"
  prefixLength :: byte
  ipv6Prefix :: "byte list"
  iaprefix_options :: "byte list"

definition ParseOptIAPrefix :: "byte list \<Rightarrow> error + OptIAPrefix" where
  "ParseOptIAPrefix data =
     (if length data < 25 then Inl ErrIAPrefixTooShort
      else Inr \<lparr>preferredLifetime = BigEndian_Uint32 (slice 0 4 data),
                validLifetime = BigEndian_Uint32 (slice 4 8 data),
                prefixLength = data ! 8,
                ipv6Prefix = slice 9 25 data,
                iaprefix_options = drop 25 data\<rparr>)"

section \<open>Well-formed messages\<close>

text \<open>
  An option is well typed when its variant is the one of its code: a generic option does not
  carry the code of one of the dedicated variants. The type assertions of the source hold
  on such options.
\<close>

fun well_typed :: "Option \<Rightarrow> bool" where
  "well_typed (OptionGeneric c v) \<longleftrightarrow>
     c \<noteq> OptionDHCPMessageType \<and> c \<noteq> OptionParameterRequestList
     \<and> c \<noteq> OptionRequestedIPAddress \<and> c \<noteq> OptionServerIdentifier"
| "well_typed _ \<longleftrightarrow> True"

text \<open>
  An option is well formed when its value is one that the wire format carries and the parser
  reads back as it is:
    \<^item> a generic option does not have the code of a dedicated variant, has no value when it
      is \<open>Pad\<close> or \<open>End\<close> and a value of at most 255 bytes otherwise;
    \<^item> a parameter request list has at most 255 codes;
    \<^item> the address of a requested address or of a server identifier is a slice of exactly
      four bytes (neither nil nor the 16-byte form);
    \<^item> a user class is in the RFC 3004 encoding, with at least one identifier, each
      identifier of 1 to 255 bytes, and a value of at most 255 bytes in all. The legacy
      encoding is left out: it does not keep the boundaries of the identifiers, so that
      different options have the same bytes (\<open>UserClass_encodings_collide\<close> below).

  An option list is well formed when its options are and \<open>End\<close> occurs at most as its last
  option. A message is legal when its arrays have their sizes, its four addresses convert to
  IPv4 and its option list is well formed.
\<close>

fun wf_option :: "Option \<Rightarrow> bool" where
  "wf_option (OptionGeneric c v) \<longleftrightarrow>
     well_typed (OptionGeneric c v) \<and> c \<noteq> OptionUserClassInformation
     \<and> (if c = OptionPad \<or> c = OptionEnd then v = [] else length v \<le> 255)"
| "wf_option (OptMessageType t) \<longleftrightarrow> True"
| "wf_option (OptParameterRequestList cs) \<longleftrightarrow> length cs \<le> 255"
| "wf_option (OptRequestedIPAddress ip) \<longleftrightarrow>
     (case ip of None \<Rightarrow> False | Some bs \<Rightarrow> length bs = 4)"
| "wf_option (OptServerIdentifier ip) \<longleftrightarrow>
     (case ip of None \<Rightarrow> False | Some bs \<Rightarrow> length bs = 4)"
| "wf_option (OptUserClass ucs rfc) \<longleftrightarrow>
     rfc \<and> ucs \<noteq> [] \<and> list_all (\<lambda>uc. uc \<noteq> [] \<and> length uc \<le> 255) ucs
     \<and> length (UserClass_value ucs rfc) \<le> 255"

definition wf_options :: "Option list \<Rightarrow> bool" where
  "wf_options opts \<longleftrightarrow>
     list_all wf_option opts \<and> list_all (\<lambda>opt. Code opt \<noteq> OptionEnd) (butlast opts)"

definition IPv4_convertible :: "DHCPv4 \<Rightarrow> bool" where
  "IPv4_convertible d \<longleftrightarrow>
     To4 (clientIPAddr d) \<noteq> None \<and> To4 (yourIPAddr d) \<noteq> None
     \<and> To4 (serverIPAddr d) \<noteq> None \<and> To4 (gatewayIPAddr d) \<noteq> None"

definition legal :: "DHCPv4 \<Rightarrow> bool" where
  "legal d \<longleftrightarrow> array_sizes d \<and> IPv4_convertible d \<and> wf_options (options d)"

text \<open>A message with its four addresses in the 4-byte form, as the parser gives them.\<close>

definition in_IPv4_form :: "DHCPv4 \<Rightarrow> DHCPv4" where
  "in_IPv4_form m =
     m\<lparr>clientIPAddr := To4 (clientIPAddr m), yourIPAddr := To4 (yourIPAddr m),
        serverIPAddr := To4 (serverIPAddr m), gatewayIPAddr := To4 (gatewayIPAddr m)\<rparr>"

section \<open>Test vectors\<close>

definition rand_1234 :: RandRead where
  "rand_1234 = \<lparr>written = [1, 2, 3, 4], failed = False\<rparr>"

definition hwaddr_example :: "byte list" where
  "hwaddr_example = [0x00, 0x11, 0x22, 0x33, 0x44, 0x55]"

definition IPv6loopback :: IP where
  "IPv6loopback = Some [0, 0, 0, 0, 0, 0, 0, 0, 0, 0, 0, 0, 0, 0, 0, 1]"

text \<open>The message \<^verbatim>\<open>New\<close> builds from the random bytes 1, 2, 3, 4.\<close>

definition new_message :: DHCPv4 where
  "new_message =
     \<lparr>opcode = 1, hwType = 1, hwAddrLen = 6, hopCount = 0, transactionID = 0x04030201,
      numSeconds = 0, flags = 0,
      clientIPAddr = IPv4 0 0 0 0, yourIPAddr = IPv4 0 0 0 0,
      serverIPAddr = IPv4 0 0 0 0, gatewayIPAddr = IPv4 0 0 0 0,
      clientHwAddr = replicate 16 0, serverHostName = replicate 64 0,
      bootFileName = replicate 128 0,
      options = [OptionGeneric OptionEnd []]\<rparr>"

text \<open>The message \<^verbatim>\<open>NewInform\<close> builds for the address 00:11:22:33:44:55 and 192.168.0.1.\<close>

definition inform_message :: DHCPv4 where
  "inform_message =
     new_message\<lparr>clientIPAddr := IPv4 192 168 0 1,
                  clientHwAddr := hwaddr_example @ replicate 10 0,
                  options := [OptMessageType MessageTypeInform, OptionGeneric OptionEnd []]\<rparr>"

text \<open>
  That message after \<^verbatim>\<open>WithUserClass\<close> with the identifier \<^verbatim>\<open>iPXE\<close> in the RFC 3004
  encoding.
\<close>

definition inform_user_class :: DHCPv4 where
  "inform_user_class =
     inform_message\<lparr>options := [OptMessageType MessageTypeInform,
                                  OptUserClass [[0x69, 0x50, 0x58, 0x45]] True,
                                  OptionGeneric OptionEnd []]\<rparr>"

text \<open>
  An offer with two server identifiers, and a message that requests the TFTP server name
  twice.
\<close>

definition offer_two_servers :: DHCPv4 where
  "offer_two_servers =
     new_message\<lparr>opcode := OpcodeBootReply, yourIPAddr := IPv4 10 0 0 5,
                  options := [OptMessageType MessageTypeOffer,
                              OptServerIdentifier (Some [10, 0, 0, 1]),
                              OptServerIdentifier (Some [10, 0, 0, 2]),
                              OptionGeneric OptionEnd []]\<rparr>"

definition request_twice_tftp :: DHCPv4 where
  "request_twice_tftp =
     new_message\<lparr>options := [OptParameterRequestList [OptionTFTPServerName, OptionTFTPServerName],
                              OptionGeneric OptionEnd []]\<rparr>"

text \<open>The payloads of the tests of \<^verbatim>\<open>ParseOptIAPrefix\<close>: a complete one and a truncated one.\<close>

definition iaprefix_payload :: "byte list" where
  "iaprefix_payload =
     [0xaa, 0xbb, 0xcc, 0xdd, 0xee, 0xff, 0x00, 0x11, 36,
      0, 0, 0, 0, 0, 0, 0, 0, 0, 0, 0, 0, 0, 0, 0, 1]"

definition iaprefix_truncated :: "byte list" where
  "iaprefix_truncated =
     [0xaa, 0xbb, 0xcc, 0xdd, 0xee, 0xff, 0x00, 0x11, 36, 0, 0, 0, 0, 0, 0, 0]"

text \<open>
  A network that delivers the message of \<^verbatim>\<open>New\<close>, which is a request, and then the offer.
\<close>

definition network_example :: Network where
  "network_example =
     \<lparr>marshal_failed = False, fileconn_failed = False, sendto_failed = False,
      timer_first = False,
      datagrams = [ToBytes new_message, ToBytes offer_two_servers]\<rparr>"

section \<open>Basic facts\<close>

lemma BigEndian_Uint32_Put: "BigEndian_Uint32 (BigEndian_PutUint32 w) = w"
  unfolding BigEndian_Uint32_def BigEndian_PutUint32_def
  apply simp
  apply (rule bit_word_eqI)
  subgoal for n
    apply (cases "n < 8"; cases "n < 16"; cases "n < 24")
    apply (auto simp add: bit_simps not_less)
    done
  done

lemma BigEndian_Uint16_Put: "BigEndian_Uint16 (BigEndian_PutUint16 w) = w"
  unfolding BigEndian_Uint16_def BigEndian_PutUint16_def
  apply simp
  apply (rule bit_word_eqI)
  subgoal for n
    apply (cases "n < 8")
    apply (auto simp add: bit_simps not_less)
    done
  done

lemma length_To4: "To4 ip = Some bs \<Longrightarrow> length bs = 4"
  by (auto simp: To4_def slice_def split: option.splits if_splits)

lemma length_ip_bytes_To4: "length (ip_bytes (To4 ip)) = (if To4 ip = None then 0 else 4)"
  by (cases "To4 ip") (auto simp: ip_bytes_def dest: length_To4)

lemma length_header_bytes:
  "array_sizes d \<Longrightarrow> length (header_bytes d) =
     220 + length (ip_bytes (To4 (clientIPAddr d))) + length (ip_bytes (To4 (yourIPAddr d)))
       + length (ip_bytes (To4 (serverIPAddr d))) + length (ip_bytes (To4 (gatewayIPAddr d)))"
  by (simp add: header_bytes_def array_sizes_def slice_def BigEndian_PutUint32_def BigEndian_PutUint16_def)

lemma length_header_bytes_236:
  "array_sizes d \<Longrightarrow> IPv4_convertible d \<Longrightarrow> length (header_bytes d) = 236"
  by (simp add: length_header_bytes length_ip_bytes_To4 IPv4_convertible_def)

lemma To4_IPv4: "To4 (IPv4 a b c d) = Some [a, b, c, d]"
  by (simp add: To4_def IPv4_def v4InV6Prefix_def isZeros_def slice_def)

lemma To4_IPv6loopback: "To4 IPv6loopback = None"
  by (simp add: To4_def IPv6loopback_def isZeros_def slice_def)

lemma New_rand_1234: "New rand_1234 = Inr new_message"
  by (simp add: New_def GenerateTransactionID_def rand_1234_def LittleEndian_Uint32_def
      OptionsFromBytes_def MagicCookie_def AddOption_def new_message_def IPv4zero_def
      OpcodeBootRequest_def HwTypeEthernet_def)

lemma array_sizes_new_message: "array_sizes new_message"
  by (simp add: array_sizes_def new_message_def)

lemma IPv4_convertible_new_message: "IPv4_convertible new_message"
  by (simp add: IPv4_convertible_def new_message_def To4_IPv4)

lemmas code_defs = OptionPad_def OptionRequestedIPAddress_def OptionDHCPMessageType_def
  OptionServerIdentifier_def OptionParameterRequestList_def OptionTFTPServerName_def
  OptionBootfileName_def OptionUserClassInformation_def OptionEnd_def

lemma New_options: "New r = Inr d0 \<Longrightarrow> options d0 = [OptionGeneric OptionEnd []]"
  by (auto simp: New_def OptionsFromBytes_def MagicCookie_def AddOption_def Let_def
      split: sum.splits)

lemma find_serverIP_none:
  "\<forall>opt\<in>set opts. Code opt \<noteq> OptionServerIdentifier \<Longrightarrow> find_serverIP opts serverIP = Inr serverIP"
  by (induction opts) auto

lemma well_typed_ServerIdentifier:
  "well_typed opt \<Longrightarrow> Code opt = OptionServerIdentifier \<Longrightarrow> \<exists>sid. opt = OptServerIdentifier sid"
  by (cases opt) (auto simp: code_defs)

lemma find_serverIP_last:
  "list_all well_typed pre \<Longrightarrow>
   find_serverIP (pre @ OptServerIdentifier sid # post) serverIP = find_serverIP post sid"
proof (induction pre arbitrary: serverIP)
  case Nil
  then show ?case by simp
next
  case (Cons opt pre)
  show ?case
  proof (cases "Code opt = OptionServerIdentifier")
    case True
    then obtain s where "opt = OptServerIdentifier s"
      using Cons.prems well_typed_ServerIdentifier by auto
    then show ?thesis using Cons by simp
  next
    case False
    then show ?thesis using Cons by simp
  qed
qed

lemma scan_RequestedOpts_eq:
  "scan_RequestedOpts requested (t, b) =
     (t \<or> OptionTFTPServerName \<in> set requested, b \<or> OptionBootfileName \<in> set requested)"
  by (induction requested arbitrary: t b) (auto simp: code_defs)

lemma well_typed_ParameterRequestList:
  "well_typed opt \<Longrightarrow> Code opt = OptionParameterRequestList \<Longrightarrow>
   \<exists>requested. opt = OptParameterRequestList requested"
  by (cases opt) (auto simp: code_defs)

lemma find_update_first:
  "find (\<lambda>opt. Code opt = c) opts = Some old \<Longrightarrow> Code new = c \<Longrightarrow>
   find (\<lambda>opt. Code opt = c) (update_first c new opts) = Some new"
  by (induction opts) (auto split: if_splits)

lemma update_first_same:
  "find (\<lambda>opt. Code opt = c) opts = Some old \<Longrightarrow> update_first c old opts = opts"
  by (induction opts) (auto split: if_splits)

lemma find_append_eq:
  "find P (xs @ ys) = (case find P xs of None \<Rightarrow> find P ys | Some x \<Rightarrow> Some x)"
  by (induction xs) auto

lemma find_AddOption:
  "find (\<lambda>opt. Code opt = c) (options d) = None \<Longrightarrow> Code new = c \<Longrightarrow>
   find (\<lambda>opt. Code opt = c) (options (AddOption new d)) = Some new"
proof (cases "options d" rule: rev_cases)
  case Nil
  assume "Code new = c"
  then show ?thesis using Nil by (simp add: AddOption_def)
next
  case (snoc ys y)
  assume n: "find (\<lambda>opt. Code opt = c) (options d) = None" and c: "Code new = c"
  from n snoc have "find (\<lambda>opt. Code opt = c) ys = None"
    by (simp add: find_append_eq split: option.splits)
  then show ?thesis using snoc c n
    by (auto simp: AddOption_def Let_def find_append_eq nth_append split: if_splits)
qed

lemma netboot_list_idem: "netboot_list (netboot_list requested) = netboot_list requested"
  by (simp add: netboot_list_def)

lemma WithNetboot_present:
  assumes "GetOneOption d OptionParameterRequestList = Some (OptParameterRequestList requested)"
  shows "WithNetboot d =
           Inr (d\<lparr>options := update_first OptionParameterRequestList
                     (OptParameterRequestList (netboot_list requested)) (options d)\<rparr>)"
  using assms by (simp add: WithNetboot_def scan_RequestedOpts_eq netboot_list_def)

lemma WithNetboot_absent:
  assumes "GetOneOption d OptionParameterRequestList = None"
  shows "WithNetboot d =
           Inr (AddOption (OptParameterRequestList [OptionTFTPServerName, OptionBootfileName]) d)"
  using assms by (simp add: WithNetboot_def)

lemma WithNetboot_fixpoint:
  assumes "GetOneOption d OptionParameterRequestList = Some (OptParameterRequestList requested)"
    and "OptionTFTPServerName \<in> set requested" and "OptionBootfileName \<in> set requested"
  shows "WithNetboot d = Inr d"
proof -
  have "netboot_list requested = requested"
    using assms(2,3) by (simp add: netboot_list_def)
  moreover have "update_first OptionParameterRequestList (OptParameterRequestList requested)
                   (options d) = options d"
    using assms(1) by (simp add: GetOneOption_def update_first_same)
  ultimately show ?thesis
    using WithNetboot_present [OF assms(1)] by simp
qed

lemma options_setters:
  "options (SetOpcode a d) = options d"
  "options (SetHwType a d) = options d"
  "options (SetHwAddrLen a d) = options d"
  "options (SetClientHwAddr hw d) = options d"
  "options (SetTransactionID t d) = options d"
  "options (SetBroadcast d) = options d"
  "options (SetUnicast d) = options d"
  "options (SetServerIPAddr ip d) = options d"
  "options (SetClientIPAddr ip d) = options d"
  by (simp_all add: SetOpcode_def SetHwType_def SetHwAddrLen_def SetClientHwAddr_def Let_def
      SetTransactionID_def SetBroadcast_def SetUnicast_def SetServerIPAddr_def
      SetClientIPAddr_def)

lemma AddOption_before_End:
  "options d = ys @ [OptionGeneric OptionEnd []] \<Longrightarrow>
   AddOption x d = d\<lparr>options := ys @ [x, OptionGeneric OptionEnd []]\<rparr>"
  by (simp add: AddOption_def Let_def nth_append)

lemma request_options:
  assumes "options d = [OptionGeneric OptionEnd []]"
  shows "AddOption c (AddOption b (AddOption a (SetServerIPAddr ip d))) =
           d\<lparr>serverIPAddr := ip, options := [a, b, c, OptionGeneric OptionEnd []]\<rparr>"
proof -
  have 1: "AddOption a (SetServerIPAddr ip d) =
             d\<lparr>serverIPAddr := ip, options := [] @ [a, OptionGeneric OptionEnd []]\<rparr>"
    using assms by (simp add: AddOption_def SetServerIPAddr_def)
  have 2: "AddOption b (d\<lparr>serverIPAddr := ip, options := [a, OptionGeneric OptionEnd []]\<rparr>) =
             d\<lparr>serverIPAddr := ip, options := [a, b, OptionGeneric OptionEnd []]\<rparr>"
    by (simp add: AddOption_def)
  have 3: "AddOption c (d\<lparr>serverIPAddr := ip, options := [a, b, OptionGeneric OptionEnd []]\<rparr>) =
             d\<lparr>serverIPAddr := ip, options := [a, b, c, OptionGeneric OptionEnd []]\<rparr>"
    by (simp add: AddOption_def)
  show ?thesis using 1 2 3 by simp
qed

lemma NewRequestFromOffer_found:
  assumes "New r = Inr d0" and f: "find_serverIP (options offer) None = Inr (Some sid)"
  shows "NewRequestFromOffer r offer modifiers =
              apply_modifiers modifiers
                ((if IsBroadcast offer then SetBroadcast else SetUnicast)
                   (SetTransactionID (transactionID offer)
                     (SetClientHwAddr (clientHwAddr offer)
                       (SetHwAddrLen (hwAddrLen offer)
                         (SetHwType (hwType offer) (SetOpcode OpcodeBootRequest d0)))))
                 \<lparr>serverIPAddr := Some sid,
                   options := [OptMessageType MessageTypeRequest,
                               OptRequestedIPAddress (yourIPAddr offer),
                               OptServerIdentifier (Some sid),
                               OptionGeneric OptionEnd []]\<rparr>)"
proof -
  define d6 where "d6 = (if IsBroadcast offer then SetBroadcast else SetUnicast)
                   (SetTransactionID (transactionID offer)
                     (SetClientHwAddr (clientHwAddr offer)
                       (SetHwAddrLen (hwAddrLen offer)
                         (SetHwType (hwType offer) (SetOpcode OpcodeBootRequest d0)))))"
  have o: "options d6 = [OptionGeneric OptionEnd []]"
    using New_options [OF assms(1)] by (simp add: d6_def options_setters)
  have "NewRequestFromOffer r offer modifiers =
          apply_modifiers modifiers
            (AddOption (OptServerIdentifier (Some sid))
              (AddOption (OptRequestedIPAddress (yourIPAddr offer))
                (AddOption (OptMessageType MessageTypeRequest)
                  (SetServerIPAddr (Some sid) d6))))"
    using assms by (simp add: NewRequestFromOffer_def Let_def d6_def)
  then show ?thesis
    using request_options [OF o] by (simp only: d6_def)
qed

lemma find_serverIP_offer_two_servers:
  "find_serverIP (options offer_two_servers) None = Inr (Some [10, 0, 0, 2])"
  by (simp add: offer_two_servers_def code_defs)

lemma length_BigEndian_PutUint32: "length (BigEndian_PutUint32 v) = 4"
  by (simp add: BigEndian_PutUint32_def)

lemma length_BigEndian_PutUint16: "length (BigEndian_PutUint16 v) = 2"
  by (simp add: BigEndian_PutUint16_def)

lemma unat_of_nat_byte: "n \<le> 255 \<Longrightarrow> unat (of_nat n :: byte) = n"
  by (simp add: unat_of_nat)

lemma ParseUserClasses_value:
  "list_all (\<lambda>uc. uc \<noteq> [] \<and> length uc \<le> 255) ucs \<Longrightarrow>
   ParseUserClasses (UserClass_value ucs True) = Some ucs"
proof (induction ucs)
  case Nil
  show ?case by (simp add: UserClass_value_def)
next
  case (Cons uc ucs)
  then have "ParseUserClasses (UserClass_value ucs True) = Some ucs"
    and "uc \<noteq> []" and "length uc \<le> 255"
    by simp_all
  then show ?case
    by (simp add: UserClass_value_def unat_of_nat_byte)
qed

lemma ParseOptUserClass_value:
  assumes "ucs \<noteq> []" and "list_all (\<lambda>uc. uc \<noteq> [] \<and> length uc \<le> 255) ucs"
  shows "ParseOptUserClass (UserClass_value ucs True) = Inr (OptUserClass ucs True)"
proof -
  have "UserClass_value ucs True \<noteq> []"
    using assms(1) by (cases ucs) (simp_all add: UserClass_value_def)
  then show ?thesis
    using ParseUserClasses_value [OF assms(2)] by (simp add: ParseOptUserClass_def)
qed

text \<open>
  The legacy encoding of the one identifier 1, 2 and the RFC 3004 encoding of the one
  identifier 2 are the same bytes: no parser gives both options back.
\<close>

lemma UserClass_encodings_collide:
  "Option_ToBytes (OptUserClass [[1, 2]] False) = Option_ToBytes (OptUserClass [[2]] True)
   \<and> OptUserClass [[1, 2]] False \<noteq> OptUserClass [[2]] True"
  by (simp add: UserClass_value_def)

lemma ParseOptions_option:
  assumes "wf_option opt" and "Code opt \<noteq> OptionEnd"
  shows "ParseOptions (Option_ToBytes opt @ bs) =
           (case ParseOptions bs of Inl e \<Rightarrow> Inl e | Inr opts \<Rightarrow> Inr (opt # opts))"
proof (cases opt)
  case (OptionGeneric c v)
  show ?thesis
  proof (cases "c = OptionPad")
    case True
    then show ?thesis using assms unfolding OptionGeneric
      by (auto split: sum.splits)
  next
    case False
    then show ?thesis using assms unfolding OptionGeneric
      by (auto simp: tlv_def unat_of_nat_byte ParseOptionValue_def split: sum.splits)
  qed
next
  case (OptMessageType t)
  show ?thesis unfolding OptMessageType
    by (simp add: tlv_def ParseOptionValue_def code_defs)
next
  case (OptParameterRequestList cs)
  show ?thesis using assms unfolding OptParameterRequestList
    by (simp add: tlv_def ParseOptionValue_def unat_of_nat_byte) (simp add: code_defs)
next
  case (OptRequestedIPAddress ip)
  then obtain a where "ip = Some a" "length a = 4"
    using assms by (auto split: option.splits)
  then show ?thesis unfolding OptRequestedIPAddress
    by (simp add: tlv_def ParseOptionValue_def ip_bytes_def cong: sum.case_cong)
      (simp add: code_defs)
next
  case (OptServerIdentifier ip)
  then obtain a where "ip = Some a" "length a = 4"
    using assms by (auto split: option.splits)
  then show ?thesis unfolding OptServerIdentifier
    by (simp add: tlv_def ParseOptionValue_def ip_bytes_def cong: sum.case_cong)
      (simp add: code_defs)
next
  case (OptUserClass ucs rfc)
  then have r: "rfc" and n: "ucs \<noteq> []"
    and l: "list_all (\<lambda>uc. uc \<noteq> [] \<and> length uc \<le> 255) ucs"
    and v: "length (UserClass_value ucs True) \<le> 255"
    using assms by auto
  have c: "OptionUserClassInformation \<noteq> OptionPad" "OptionUserClassInformation \<noteq> OptionEnd"
    "OptionUserClassInformation \<noteq> OptionDHCPMessageType"
    "OptionUserClassInformation \<noteq> OptionParameterRequestList"
    "OptionUserClassInformation \<noteq> OptionRequestedIPAddress"
    "OptionUserClassInformation \<noteq> OptionServerIdentifier"
    by (simp_all add: code_defs)
  show ?thesis unfolding OptUserClass using r v c
    by (simp add: tlv_def ParseOptionValue_def unat_of_nat_byte
        ParseOptUserClass_value [OF n l] cong: sum.case_cong)
qed

lemma ParseOptions_End:
  assumes "wf_option opt" and "Code opt = OptionEnd"
  shows "ParseOptions (Option_ToBytes opt @ bs) = Inr [opt]"
  using assms by (cases opt) (auto simp: code_defs)

lemma ParseOptions_ToBytes:
  "wf_options opts \<Longrightarrow> ParseOptions (concat (map Option_ToBytes opts)) = Inr opts"
proof (induction opts)
  case Nil
  show ?case by simp
next
  case (Cons opt opts)
  show ?case
  proof (cases opts)
    case Nil
    then show ?thesis
      using Cons.prems ParseOptions_End [of opt "[]"] ParseOptions_option [of opt "[]"]
      by (cases "Code opt = OptionEnd") (simp_all add: wf_options_def)
  next
    case (Cons opt' opts')
    then have "wf_option opt" and "Code opt \<noteq> OptionEnd" and "wf_options opts"
      using Cons.prems by (simp_all add: wf_options_def)
    then show ?thesis
      using Cons.IH by (simp add: ParseOptions_option)
  qed
qed

lemma OptionsFromBytes_ToBytes:
  "wf_options opts \<Longrightarrow>
   OptionsFromBytes (MagicCookie @ concat (map Option_ToBytes opts)) = Inr opts"
  by (simp add: OptionsFromBytes_def ParseOptions_ToBytes)

lemma To4_Some_ip_bytes: "To4 ip \<noteq> None \<Longrightarrow> \<exists>a. To4 ip = Some a \<and> ip_bytes (To4 ip) = a \<and> length a = 4"
  by (cases "To4 ip") (auto simp: ip_bytes_def dest: length_To4)

lemma FromBytes_ToBytes:
  assumes "legal m"
  shows "FromBytes (ToBytes m) =
           Inr (m\<lparr>clientIPAddr := To4 (clientIPAddr m), yourIPAddr := To4 (yourIPAddr m),
                  serverIPAddr := To4 (serverIPAddr m),
                  gatewayIPAddr := To4 (gatewayIPAddr m)\<rparr>)"
proof -
  from assms have sizes: "length (clientHwAddr m) = 16" "length (serverHostName m) = 64"
      "length (bootFileName m) = 128"
    and wf: "wf_options (options m)"
    and conv: "To4 (clientIPAddr m) \<noteq> None" "To4 (yourIPAddr m) \<noteq> None"
      "To4 (serverIPAddr m) \<noteq> None" "To4 (gatewayIPAddr m) \<noteq> None"
    by (simp_all add: legal_def array_sizes_def IPv4_convertible_def)
  obtain c where c: "To4 (clientIPAddr m) = Some c" "ip_bytes (To4 (clientIPAddr m)) = c" "length c = 4"
    using To4_Some_ip_bytes [OF conv(1)] by blast
  obtain y where y: "To4 (yourIPAddr m) = Some y" "ip_bytes (To4 (yourIPAddr m)) = y" "length y = 4"
    using To4_Some_ip_bytes [OF conv(2)] by blast
  obtain s where s: "To4 (serverIPAddr m) = Some s" "ip_bytes (To4 (serverIPAddr m)) = s" "length s = 4"
    using To4_Some_ip_bytes [OF conv(3)] by blast
  obtain g where g: "To4 (gatewayIPAddr m) = Some g" "ip_bytes (To4 (gatewayIPAddr m)) = g" "length g = 4"
    using To4_Some_ip_bytes [OF conv(4)] by blast
  define rest where "rest = MagicCookie @ concat (map Option_ToBytes (options m))"
  define data where "data = ToBytes m"
  have d: "data = [opcode m, hwType m, hwAddrLen m, hopCount m]
             @ BigEndian_PutUint32 (transactionID m)
             @ BigEndian_PutUint16 (numSeconds m)
             @ BigEndian_PutUint16 (flags m)
             @ c @ y @ s @ g
             @ clientHwAddr m @ serverHostName m @ bootFileName m @ rest"
    using sizes c(2) y(2) s(2) g(2)
    by (simp add: data_def ToBytes_def header_bytes_def slice_def rest_def)
  note len = length_BigEndian_PutUint32 length_BigEndian_PutUint16 sizes c(3) y(3) s(3) g(3)
  have l: "\<not> length data < HeaderSize"
    by (simp add: d len HeaderSize_def)
  have f0: "data ! 0 = opcode m" "data ! 1 = hwType m" "data ! 2 = hwAddrLen m"
    "data ! 3 = hopCount m"
    by (simp_all add: d)
  have f1: "slice 4 8 data = BigEndian_PutUint32 (transactionID m)"
    by (simp add: d slice_def len)
  have f2: "slice 8 10 data = BigEndian_PutUint16 (numSeconds m)"
    by (simp add: d slice_def len)
  have f3: "slice 10 12 data = BigEndian_PutUint16 (flags m)"
    by (simp add: d slice_def len)
  have f4: "slice 12 16 data = c"
    by (simp add: d slice_def len)
  have f5: "slice 16 20 data = y"
    by (simp add: d slice_def len)
  have f6: "slice 20 24 data = s"
    by (simp add: d slice_def len)
  have f7: "slice 24 28 data = g"
    by (simp add: d slice_def len)
  have f8: "slice 28 44 data = clientHwAddr m"
    by (simp add: d slice_def len)
  have f9: "slice 44 108 data = serverHostName m"
    by (simp add: d slice_def len)
  have f10: "slice 108 236 data = bootFileName m"
    by (simp add: d slice_def len)
  have f11: "drop 236 data = rest"
    by (simp add: d len)
  have o: "OptionsFromBytes rest = Inr (options m)"
    unfolding rest_def using wf by (rule OptionsFromBytes_ToBytes)
  have "FromBytes data =
          Inr \<lparr>opcode = opcode m, hwType = hwType m, hwAddrLen = hwAddrLen m,
               hopCount = hopCount m, transactionID = transactionID m,
               numSeconds = numSeconds m, flags = flags m,
               clientIPAddr = Some c, yourIPAddr = Some y, serverIPAddr = Some s,
               gatewayIPAddr = Some g, clientHwAddr = clientHwAddr m,
               serverHostName = serverHostName m, bootFileName = bootFileName m,
               options = options m\<rparr>"
    unfolding FromBytes_def
    by (simp only: l f0 f1 f2 f3 f4 f5 f6 f7 f8 f9 f10 f11 o if_False sum.case
        BigEndian_Uint32_Put BigEndian_Uint16_Put)
  then show ?thesis
    unfolding data_def by (simp add: c(1) y(1) s(1) g(1))
qed

lemma v4InV6Prefix_slice:
  assumes "length bs = 16" "isZeros (slice 0 10 bs)" "bs ! 10 = 0xff" "bs ! 11 = 0xff"
  shows "slice 0 12 bs = v4InV6Prefix"
proof (rule nth_equalityI)
  show "length (slice 0 12 bs) = length v4InV6Prefix"
    using assms(1) by (simp add: slice_def v4InV6Prefix_def)
next
  fix i assume "i < length (slice 0 12 bs)"
  then have i: "i < 12" using assms(1) by (simp add: slice_def)
  have z: "\<And>j. j < 10 \<Longrightarrow> bs ! j = 0"
    using assms(1,2) by (simp add: isZeros_def slice_def list_all_length)
  from i consider "i < 10" | "i = 10" | "i = 11" by linarith
  then show "slice 0 12 bs ! i = v4InV6Prefix ! i"
  proof cases
    case 1
    then have "v4InV6Prefix ! i = 0"
      by (auto simp: v4InV6Prefix_def less_Suc_eq numeral_eq_Suc)
    then show ?thesis using 1 z by (simp add: slice_def)
  next
    case 2
    then show ?thesis using assms(3) by (simp add: slice_def v4InV6Prefix_def)
  next
    case 3
    then show ?thesis using assms(4) by (simp add: slice_def v4InV6Prefix_def)
  qed
qed

lemma IP_Equal_To4: "To4 ip \<noteq> None \<Longrightarrow> IP_Equal (To4 ip) ip"
proof (cases ip)
  case None
  assume "To4 ip \<noteq> None"
  then show ?thesis using None by (simp add: To4_def)
next
  case (Some bs)
  assume n: "To4 ip \<noteq> None"
  show ?thesis
  proof (cases "length bs = 4")
    case True
    then show ?thesis using Some by (simp add: To4_def IP_Equal_def ip_bytes_def)
  next
    case False
    then have l: "length bs = 16" and z: "isZeros (slice 0 10 bs)"
      and f: "bs ! 10 = 0xff" "bs ! 11 = 0xff"
      using n Some by (auto simp: To4_def split: if_splits)
    then have "To4 ip = Some (slice 12 16 bs)"
      using Some False by (simp add: To4_def)
    moreover have "length (slice 12 16 bs) = 4"
      using l by (simp add: slice_def)
    ultimately show ?thesis
      using Some l v4InV6Prefix_slice [OF l z f] by (simp add: IP_Equal_def ip_bytes_def)
  qed
qed

lemma legal_inform_message: "legal inform_message"
  by (simp add: legal_def array_sizes_def IPv4_convertible_def wf_options_def
      inform_message_def new_message_def hwaddr_example_def To4_IPv4 code_defs)

lemma WithUserClass_inform_message:
  "WithUserClass [0x69, 0x50, 0x58, 0x45] True inform_message = Inr inform_user_class"
  by (simp add: WithUserClass_def AddOption_def inform_user_class_def inform_message_def
      OptionEnd_def)

lemma legal_inform_user_class: "legal inform_user_class"
  by (simp add: legal_def array_sizes_def IPv4_convertible_def wf_options_def
      inform_user_class_def inform_message_def new_message_def hwaddr_example_def To4_IPv4
      UserClass_value_def code_defs)

lemma BigEndian_PutUint32_examples:
  "BigEndian_PutUint32 0xaabbccdd = [0xaa, 0xbb, 0xcc, 0xdd]"
  "BigEndian_PutUint32 0xeeff0011 = [0xee, 0xff, 0x00, 0x11]"
  by (simp_all add: BigEndian_PutUint32_def word_eq_iff_unsigned [where ?'a = nat])

lemma ParseOptionValue_well_typed: "ParseOptionValue c v = Inr opt \<Longrightarrow> well_typed opt"
  by (auto simp: ParseOptionValue_def ParseOptUserClass_def
      split: if_splits list.splits option.splits)

lemma ParseOptions_well_typed: "ParseOptions bs = Inr opts \<Longrightarrow> list_all well_typed opts"
proof (induction bs arbitrary: opts rule: ParseOptions.induct)
  case 1
  then show ?case by simp
next
  case (2 c rest)
  show ?case
  proof (cases "c = OptionPad")
    case True
    then show ?thesis using 2 by (auto simp: code_defs split: sum.splits)
  next
    case False
    show ?thesis
    proof (cases "c = OptionEnd")
      case True
      then show ?thesis using 2(3) False by (auto simp: code_defs)
    next
      case e: False
      then show ?thesis using 2(2)[OF False e] 2(3) False
        by (auto simp: ParseOptionValue_well_typed split: list.splits if_splits sum.splits)
    qed
  qed
qed

lemma FromBytes_well_typed: "FromBytes b = Inr r \<Longrightarrow> list_all well_typed (options r)"
  by (auto simp: FromBytes_def OptionsFromBytes_def ParseOptions_well_typed
      split: if_splits sum.splits)

lemma well_typed_MessageType:
  "well_typed opt \<Longrightarrow> Code opt = OptionDHCPMessageType \<Longrightarrow> \<exists>t. opt = OptMessageType t"
  by (cases opt) (auto simp: code_defs)

lemma MessageType_no_panic:
  assumes "list_all well_typed (options r)"
  shows "\<exists>t. MessageType r = Inr t"
proof (cases "GetOneOption r OptionDHCPMessageType")
  case None
  then show ?thesis by (simp add: MessageType_def)
next
  case (Some opt)
  then have "opt \<in> set (options r)" and "Code opt = OptionDHCPMessageType"
    by (auto simp: GetOneOption_def find_Some_iff)
  then obtain t where "opt = OptMessageType t"
    using assms well_typed_MessageType by (auto simp: list_all_iff)
  then show ?thesis using Some by (simp add: MessageType_def)
qed

lemma receive_loop_Inr:
  "receive_loop packet messageType ds = Inr response \<Longrightarrow>
   accepted packet messageType response
   \<and> (\<exists>datagram\<in>set ds. FromBytes (take MaxUDPReceivedPacketSize datagram) = Inr response)"
proof (induction ds)
  case Nil
  then show ?case by simp
next
  case (Cons d ds)
  then show ?case
    by (auto simp: accepted_def split: sum.splits if_splits)
qed

lemma receive_loop_drop:
  assumes "FromBytes (take MaxUDPReceivedPacketSize datagram) = Inr other"
    and "\<not> accepted packet messageType other"
  shows "receive_loop packet messageType (datagram # rest) = receive_loop packet messageType rest"
proof -
  obtain t where "MessageType other = Inr t"
    using MessageType_no_panic [OF FromBytes_well_typed [OF assms(1)]] by blast
  then show ?thesis
    using assms by (auto simp: accepted_def)
qed

lemma FromBytes_datagram:
  assumes "legal m" and "length (ToBytes m) \<le> 8192"
  shows "FromBytes (take MaxUDPReceivedPacketSize (ToBytes m)) = Inr (in_IPv4_form m)"
  using assms FromBytes_ToBytes [OF assms(1)]
  by (simp add: MaxUDPReceivedPacketSize_def in_IPv4_form_def)

lemma legal_new_message: "legal new_message"
  by (simp add: legal_def array_sizes_def IPv4_convertible_def wf_options_def
      new_message_def To4_IPv4 code_defs)

lemma legal_offer_two_servers: "legal offer_two_servers"
  by (simp add: legal_def array_sizes_def IPv4_convertible_def wf_options_def
      offer_two_servers_def new_message_def To4_IPv4 code_defs)

lemma length_ToBytes:
  "legal m \<Longrightarrow>
   length (ToBytes m) = 240 + length (concat (map Option_ToBytes (options m)))"
  by (simp add: ToBytes_def legal_def length_header_bytes_236 MagicCookie_def)

lemma datagram_new_message:
  "FromBytes (take MaxUDPReceivedPacketSize (ToBytes new_message)) = Inr (in_IPv4_form new_message)"
  by (rule FromBytes_datagram [OF legal_new_message])
    (simp add: length_ToBytes [OF legal_new_message], simp add: new_message_def code_defs)

lemma datagram_offer_two_servers:
  "FromBytes (take MaxUDPReceivedPacketSize (ToBytes offer_two_servers))
     = Inr (in_IPv4_form offer_two_servers)"
  by (rule FromBytes_datagram [OF legal_offer_two_servers])
    (simp add: length_ToBytes [OF legal_offer_two_servers],
     simp add: offer_two_servers_def tlv_def ip_bytes_def code_defs)

lemma accepted_offer_two_servers:
  "accepted new_message MessageTypeOffer (in_IPv4_form offer_two_servers)"
  by (simp add: accepted_def in_IPv4_form_def offer_two_servers_def new_message_def
      MessageType_def GetOneOption_def code_defs MessageTypeOffer_def MessageTypeNone_def)

lemma not_accepted_new_message:
  "\<not> accepted new_message MessageTypeOffer (in_IPv4_form new_message)"
  by (simp add: accepted_def in_IPv4_form_def new_message_def OpcodeBootReply_def)

lemma receive_loop_offer:
  "receive_loop new_message MessageTypeOffer [ToBytes offer_two_servers]
     = Inr (in_IPv4_form offer_two_servers)"
  using accepted_offer_two_servers
  by (simp add: datagram_offer_two_servers accepted_def MessageTypeOffer_def MessageTypeNone_def)

section \<open>Parsing short input\<close>

text \<open>
  C8. For every input byte sequence shorter than 236 bytes \<^verbatim>\<open>FromBytes\<close> returns an error
  and no message: the result is the header error, never a message.
\<close>

theorem FromBytes_short_fails:
  assumes "length data < 236"
  shows "FromBytes data = Inl ErrHeaderTooShort \<and> (\<forall>d. FromBytes data \<noteq> Inr d)"
  using assms by (simp add: FromBytes_def HeaderSize_def)

theorem FromBytes_short_fails_witness:
  "length (replicate 235 (0 :: byte)) < 236
   \<and> FromBytes (replicate 235 0) = Inl ErrHeaderTooShort
   \<and> (\<forall>d. FromBytes (replicate 235 0) \<noteq> Inr d)"
  using FromBytes_short_fails [of "replicate 235 0"] by simp

section \<open>Adding an option\<close>

text \<open>
  C4. When the option list of a message ends with an option of code \<open>End\<close>, after
  \<^verbatim>\<open>AddOption x\<close> the list is the old one with \<open>x\<close> put immediately before that last
  option, so it still ends with \<open>End\<close>; when the list is empty or does not end with \<open>End\<close>,
  \<open>x\<close> is appended at the end.
\<close>

theorem AddOption_End_law:
  "(options d \<noteq> [] \<and> Code (last (options d)) = OptionEnd \<longrightarrow>
      options (AddOption x d) = butlast (options d) @ [x, last (options d)]
      \<and> Code (last (options (AddOption x d))) = OptionEnd
      \<and> options (AddOption x d) ! (length (options (AddOption x d)) - 2) = x)
   \<and> (options d = [] \<or> Code (last (options d)) \<noteq> OptionEnd \<longrightarrow>
      options (AddOption x d) = options d @ [x])"
proof (cases "options d" rule: rev_cases)
  case Nil
  then show ?thesis by (simp add: AddOption_def)
next
  case (snoc ys y)
  then show ?thesis
    by (simp add: AddOption_def Let_def nth_append)
qed

theorem AddOption_End_law_witness:
  "(let d = \<lparr>opcode = 1, hwType = 1, hwAddrLen = 6, hopCount = 0, transactionID = 7,
              numSeconds = 0, flags = 0, clientIPAddr = None, yourIPAddr = None,
              serverIPAddr = None, gatewayIPAddr = None, clientHwAddr = [],
              serverHostName = [], bootFileName = [],
              options = [OptMessageType 1, OptionGeneric OptionEnd []]\<rparr>;
        e = d\<lparr>options := [OptMessageType 1]\<rparr>;
        x = OptParameterRequestList [1, 3]
    in options d \<noteq> [] \<and> Code (last (options d)) = OptionEnd
       \<and> options (AddOption x d) = [OptMessageType 1, x, OptionGeneric OptionEnd []]
       \<and> Code (last (options e)) \<noteq> OptionEnd
       \<and> options (AddOption x e) = [OptMessageType 1, x])"
  using AddOption_End_law
          [of "\<lparr>opcode = 1, hwType = 1, hwAddrLen = 6, hopCount = 0, transactionID = 7,
              numSeconds = 0, flags = 0, clientIPAddr = None, yourIPAddr = None,
              serverIPAddr = None, gatewayIPAddr = None, clientHwAddr = [],
              serverHostName = [], bootFileName = [],
              options = [OptMessageType 1, OptionGeneric OptionEnd []]\<rparr>"
              "OptParameterRequestList [1, 3]"]
        AddOption_End_law
          [of "\<lparr>opcode = 1, hwType = 1, hwAddrLen = 6, hopCount = 0, transactionID = 7,
              numSeconds = 0, flags = 0, clientIPAddr = None, yourIPAddr = None,
              serverIPAddr = None, gatewayIPAddr = None, clientHwAddr = [],
              serverHostName = [], bootFileName = [],
              options = [OptMessageType 1]\<rparr>"
              "OptParameterRequestList [1, 3]"]
  by (simp add: Let_def OptionEnd_def OptionDHCPMessageType_def)

section \<open>The size of the header\<close>

text \<open>
  C10. The header \<^verbatim>\<open>ToBytes\<close> emits, that is the bytes before the magic cookie, has 236 bytes
  exactly when each of the four address fields converts to IPv4 (\<^verbatim>\<open>To4\<close> is not nil); the
  setter stores any address as it is, and for an address that does not convert the header
  \<^verbatim>\<open>ToBytes\<close> emits is shorter than 236 bytes.
\<close>

theorem header_size_needs_IPv4:
  assumes "array_sizes d"
  shows "(length (header_bytes d) = 236 \<longleftrightarrow> IPv4_convertible d)
         \<and> (IPv4_convertible d \<longrightarrow> take 236 (ToBytes d) = header_bytes d)
         \<and> (To4 ip = None \<longrightarrow>
              clientIPAddr (SetClientIPAddr ip d) = ip
              \<and> length (header_bytes (SetClientIPAddr ip d)) < 236
              \<and> take (length (header_bytes (SetClientIPAddr ip d))) (ToBytes (SetClientIPAddr ip d))
                  = header_bytes (SetClientIPAddr ip d))"
proof -
  have a: "array_sizes (SetClientIPAddr ip d)"
    using assms by (simp add: array_sizes_def SetClientIPAddr_def)
  have 1: "length (header_bytes d) = 236 \<longleftrightarrow> IPv4_convertible d"
    using assms by (simp add: length_header_bytes length_ip_bytes_To4 IPv4_convertible_def)
  have 2: "IPv4_convertible d \<longrightarrow> take 236 (ToBytes d) = header_bytes d"
    using 1 by (auto simp: ToBytes_def)
  have 3: "To4 ip = None \<longrightarrow> length (header_bytes (SetClientIPAddr ip d)) < 236"
    using a by (simp add: length_header_bytes length_ip_bytes_To4) (simp add: SetClientIPAddr_def)
  show ?thesis using 1 2 3 by (simp add: ToBytes_def) (simp add: SetClientIPAddr_def)
qed

theorem header_size_needs_IPv4_witness:
  "array_sizes new_message \<and> IPv4_convertible new_message
   \<and> length (header_bytes new_message) = 236
   \<and> take 236 (ToBytes new_message) = header_bytes new_message
   \<and> To4 IPv6loopback = None
   \<and> length (header_bytes (SetClientIPAddr IPv6loopback new_message)) < 236"
  using header_size_needs_IPv4 [OF array_sizes_new_message, of IPv6loopback]
  by (simp add: array_sizes_new_message IPv4_convertible_new_message To4_IPv6loopback)

text \<open>
  C2, as stated, fails: the message of \<^verbatim>\<open>New\<close> with the client address set to the IPv6
  loopback address has the option \<open>End\<close>, and \<^verbatim>\<open>ToBytes\<close> gives 237 bytes, with no magic
  cookie at the offsets 236 to 240.
\<close>

theorem ToBytes_cookie_counterexample:
  "options (SetClientIPAddr IPv6loopback new_message) \<noteq> []
   \<and> length (ToBytes (SetClientIPAddr IPv6loopback new_message)) = 237
   \<and> \<not> (240 \<le> length (ToBytes (SetClientIPAddr IPv6loopback new_message)))
   \<and> slice 236 240 (ToBytes (SetClientIPAddr IPv6loopback new_message)) \<noteq> MagicCookie"
  by (simp add: ToBytes_def header_bytes_def SetClientIPAddr_def new_message_def To4_IPv4
      To4_IPv6loopback ip_bytes_def slice_def MagicCookie_def OptionEnd_def OptionPad_def
      BigEndian_PutUint32_def BigEndian_PutUint16_def)

text \<open>
  C2, amended. For every message whose four address fields convert to IPv4, whatever its
  option list, \<^verbatim>\<open>ToBytes\<close> returns at least 240 bytes, the first 236 are the fixed header and
  the bytes 236 to 240 are the magic cookie 99, 130, 83, 99.
\<close>

theorem ToBytes_header_and_cookie:
  assumes "array_sizes d" and "IPv4_convertible d"
  shows "240 \<le> length (ToBytes d)
         \<and> length (header_bytes d) = 236
         \<and> slice 0 236 (ToBytes d) = header_bytes d
         \<and> slice 236 240 (ToBytes d) = [99, 130, 83, 99]"
  using length_header_bytes_236 [OF assms]
  by (simp add: ToBytes_def slice_def MagicCookie_def)

theorem ToBytes_header_and_cookie_witness:
  "array_sizes new_message \<and> IPv4_convertible new_message
   \<and> 240 \<le> length (ToBytes new_message)
   \<and> slice 236 240 (ToBytes new_message) = [99, 130, 83, 99]"
  using ToBytes_header_and_cookie [OF array_sizes_new_message IPv4_convertible_new_message]
  by (simp add: array_sizes_new_message IPv4_convertible_new_message)

section \<open>The constructors\<close>

text \<open>
  C5 on the code: \<^verbatim>\<open>NewInform\<close> gives a unicast message with the client address set to the
  local address and a message type option \<open>Inform\<close>, but its option list ends with the
  \<open>End\<close> option that \<^verbatim>\<open>New\<close> has added, against the comment of \<^verbatim>\<open>NewInform\<close>.
\<close>

theorem NewInform_emits_End:
  "NewInform rand_1234 hwaddr_example (IPv4 192 168 0 1) = Inr inform_message
   \<and> IsUnicast inform_message
   \<and> clientIPAddr inform_message = IPv4 192 168 0 1
   \<and> options inform_message = [OptMessageType MessageTypeInform, OptionGeneric OptionEnd []]
   \<and> Code (last (options inform_message)) = OptionEnd"
  by (simp add: NewInform_def New_rand_1234 SetOpcode_def SetHwType_def SetHwAddrLen_def
      SetClientHwAddr_def SetClientIPAddr_def AddOption_def hwaddr_example_def new_message_def
      OpcodeBootRequest_def HwTypeEthernet_def IsUnicast_def inform_message_def)

section \<open>A request from an offer\<close>

text \<open>
  C3, as stated, fails: the loop over the options of the offer has no \<^verbatim>\<open>break\<close>, so of two
  server identifiers the request takes the last one, not the first.
\<close>

theorem NewRequestFromOffer_first_counterexample:
  "GetOneOption offer_two_servers OptionServerIdentifier
     = Some (OptServerIdentifier (Some [10, 0, 0, 1]))
   \<and> map_sum id serverIPAddr (NewRequestFromOffer rand_1234 offer_two_servers [])
       = Inr (Some [10, 0, 0, 2])
   \<and> map_sum id options (NewRequestFromOffer rand_1234 offer_two_servers [])
       = Inr [OptMessageType MessageTypeRequest, OptRequestedIPAddress (IPv4 10 0 0 5),
              OptServerIdentifier (Some [10, 0, 0, 2]), OptionGeneric OptionEnd []]"
proof -
  have "GetOneOption offer_two_servers OptionServerIdentifier
          = Some (OptServerIdentifier (Some [10, 0, 0, 1]))"
    by (simp add: GetOneOption_def offer_two_servers_def code_defs)
  moreover have "yourIPAddr offer_two_servers = IPv4 10 0 0 5"
    by (simp add: offer_two_servers_def)
  ultimately show ?thesis
    by (simp add: NewRequestFromOffer_found [OF New_rand_1234 find_serverIP_offer_two_servers])
qed

text \<open>
  C3, amended. When \<^verbatim>\<open>New\<close> succeeds: for an offer without a server identifier option
  \<^verbatim>\<open>NewRequestFromOffer\<close> returns the error and no message; for an offer of well-typed
  options whose last server identifier option holds \<open>sid\<close>, it builds the request with the
  hardware type, address length, hardware address, transaction id and broadcast flag of the
  offer, sets its server address to \<open>sid\<close>, gives it the options \<open>MessageType(Request)\<close>,
  \<open>RequestedIPAddress(yourIPAddr offer)\<close>, \<open>ServerIdentifier(sid)\<close> and \<open>End\<close>, and applies the
  modifiers to it from left to right.
\<close>

theorem NewRequestFromOffer_last_ServerIdentifier:
  assumes "New r = Inr d0"
  shows "((\<forall>opt\<in>set (options offer). Code opt \<noteq> OptionServerIdentifier) \<longrightarrow>
            NewRequestFromOffer r offer modifiers = Inl ErrMissingServerIP)
         \<and> (list_all well_typed pre
             \<and> options offer = pre @ OptServerIdentifier (Some sid) # post
             \<and> (\<forall>opt\<in>set post. Code opt \<noteq> OptionServerIdentifier) \<longrightarrow>
            NewRequestFromOffer r offer modifiers =
              apply_modifiers modifiers
                ((if IsBroadcast offer then SetBroadcast else SetUnicast)
                   (SetTransactionID (transactionID offer)
                     (SetClientHwAddr (clientHwAddr offer)
                       (SetHwAddrLen (hwAddrLen offer)
                         (SetHwType (hwType offer) (SetOpcode OpcodeBootRequest d0)))))
                 \<lparr>serverIPAddr := Some sid,
                   options := [OptMessageType MessageTypeRequest,
                               OptRequestedIPAddress (yourIPAddr offer),
                               OptServerIdentifier (Some sid),
                               OptionGeneric OptionEnd []]\<rparr>))"
proof (intro conjI impI)
  assume "\<forall>opt\<in>set (options offer). Code opt \<noteq> OptionServerIdentifier"
  then have "find_serverIP (options offer) None = Inr None"
    by (rule find_serverIP_none)
  then show "NewRequestFromOffer r offer modifiers = Inl ErrMissingServerIP"
    using assms by (simp add: NewRequestFromOffer_def Let_def)
next
  assume a: "list_all well_typed pre
             \<and> options offer = pre @ OptServerIdentifier (Some sid) # post
             \<and> (\<forall>opt\<in>set post. Code opt \<noteq> OptionServerIdentifier)"
  then have f: "find_serverIP (options offer) None = Inr (Some sid)"
    by (simp add: find_serverIP_last find_serverIP_none)
  show "NewRequestFromOffer r offer modifiers =
              apply_modifiers modifiers
                ((if IsBroadcast offer then SetBroadcast else SetUnicast)
                   (SetTransactionID (transactionID offer)
                     (SetClientHwAddr (clientHwAddr offer)
                       (SetHwAddrLen (hwAddrLen offer)
                         (SetHwType (hwType offer) (SetOpcode OpcodeBootRequest d0)))))
                 \<lparr>serverIPAddr := Some sid,
                   options := [OptMessageType MessageTypeRequest,
                               OptRequestedIPAddress (yourIPAddr offer),
                               OptServerIdentifier (Some sid),
                               OptionGeneric OptionEnd []]\<rparr>)"
    using assms f by (rule NewRequestFromOffer_found)
qed

theorem NewRequestFromOffer_last_ServerIdentifier_witness:
  "New rand_1234 = Inr new_message
   \<and> list_all (\<lambda>opt. Code opt \<noteq> OptionServerIdentifier) (options new_message)
   \<and> NewRequestFromOffer rand_1234 new_message [] = Inl ErrMissingServerIP
   \<and> list_all well_typed [OptMessageType MessageTypeOffer, OptServerIdentifier (Some [10, 0, 0, 1])]
   \<and> options offer_two_servers =
        [OptMessageType MessageTypeOffer, OptServerIdentifier (Some [10, 0, 0, 1])]
        @ OptServerIdentifier (Some [10, 0, 0, 2]) # [OptionGeneric OptionEnd []]
   \<and> map_sum id serverIPAddr
        (NewRequestFromOffer rand_1234 offer_two_servers [Inr \<circ> SetBroadcast])
        = Inr (Some [10, 0, 0, 2])
   \<and> map_sum id options
        (NewRequestFromOffer rand_1234 offer_two_servers [Inr \<circ> SetBroadcast])
        = Inr [OptMessageType MessageTypeRequest,
               OptRequestedIPAddress (yourIPAddr offer_two_servers),
               OptServerIdentifier (Some [10, 0, 0, 2]), OptionGeneric OptionEnd []]"
proof -
  have 1: "\<forall>opt\<in>set (options new_message). Code opt \<noteq> OptionServerIdentifier"
    by (simp add: new_message_def code_defs)
  have 2: "list_all well_typed
             [OptMessageType MessageTypeOffer, OptServerIdentifier (Some [10, 0, 0, 1])]"
    by simp
  have 3: "options offer_two_servers =
        [OptMessageType MessageTypeOffer, OptServerIdentifier (Some [10, 0, 0, 1])]
        @ OptServerIdentifier (Some [10, 0, 0, 2]) # [OptionGeneric OptionEnd []]"
    by (simp add: offer_two_servers_def)
  have 4: "\<forall>opt\<in>set [OptionGeneric OptionEnd []]. Code opt \<noteq> OptionServerIdentifier"
    by (simp add: code_defs)
  show ?thesis
    using NewRequestFromOffer_last_ServerIdentifier [OF New_rand_1234, of new_message "[]"]
      NewRequestFromOffer_last_ServerIdentifier [OF New_rand_1234, of offer_two_servers
        "[Inr \<circ> SetBroadcast]"
        "[OptMessageType MessageTypeOffer, OptServerIdentifier (Some [10, 0, 0, 1])]"
        "[10, 0, 0, 2]" "[OptionGeneric OptionEnd []]"]
      1 2 3 4
    by (simp add: New_rand_1234 SetBroadcast_def list_all_iff)
qed

section \<open>The netboot modifier\<close>

text \<open>
  C6, as stated, fails: \<^verbatim>\<open>WithNetboot\<close> never removes a code, so a list that requests the TFTP
  server name twice still holds it twice after two applications.
\<close>

theorem WithNetboot_at_most_once_counterexample:
  "apply_modifiers [WithNetboot, WithNetboot] request_twice_tftp =
     Inr (request_twice_tftp
            \<lparr>options := [OptParameterRequestList
                          [OptionTFTPServerName, OptionTFTPServerName, OptionBootfileName],
                        OptionGeneric OptionEnd []]\<rparr>)
   \<and> count_list [OptionTFTPServerName, OptionTFTPServerName, OptionBootfileName]
        OptionTFTPServerName = 2"
  by (simp add: WithNetboot_def GetOneOption_def request_twice_tftp_def new_message_def code_defs)

text \<open>
  C6, amended. On a message of well-typed options \<^verbatim>\<open>WithNetboot\<close> succeeds and a second
  application changes nothing; afterwards the first parameter request list is the old one
  followed by the TFTP server name if it was not in it and then by the bootfile name if it
  was not in it, and it is the list of these two codes when the message had none.
\<close>

theorem WithNetboot_idempotent:
  assumes "list_all well_typed (options d)"
  shows "\<exists>d1. WithNetboot d = Inr d1 \<and> WithNetboot d1 = Inr d1
              \<and> parameter_request_list d1 =
                  Some (case parameter_request_list d of
                          None \<Rightarrow> [OptionTFTPServerName, OptionBootfileName]
                        | Some requested \<Rightarrow>
                            requested
                            @ (if OptionTFTPServerName \<in> set requested then []
                               else [OptionTFTPServerName])
                            @ (if OptionBootfileName \<in> set requested then []
                               else [OptionBootfileName]))"
proof (cases "GetOneOption d OptionParameterRequestList")
  case None
  let ?new = "OptParameterRequestList [OptionTFTPServerName, OptionBootfileName]"
  let ?d1 = "AddOption ?new d"
  have g: "GetOneOption ?d1 OptionParameterRequestList = Some ?new"
    using None by (simp add: GetOneOption_def find_AddOption)
  have "WithNetboot ?d1 = Inr ?d1"
    using g by (rule WithNetboot_fixpoint) simp_all
  moreover have "parameter_request_list d = None"
    using None by (simp add: parameter_request_list_def)
  ultimately show ?thesis
    using WithNetboot_absent [OF None] g by (simp add: parameter_request_list_def)
next
  case (Some params)
  then have "params \<in> set (options d)" and c: "Code params = OptionParameterRequestList"
    by (auto simp: GetOneOption_def find_Some_iff)
  then have "well_typed params"
    using assms by (simp add: list_all_iff)
  then obtain requested where p: "params = OptParameterRequestList requested"
    using c well_typed_ParameterRequestList by blast
  let ?new = "OptParameterRequestList (netboot_list requested)"
  let ?d1 = "d\<lparr>options := update_first OptionParameterRequestList ?new (options d)\<rparr>"
  have g0: "GetOneOption d OptionParameterRequestList = Some (OptParameterRequestList requested)"
    using Some p by simp
  have g: "GetOneOption ?d1 OptionParameterRequestList = Some ?new"
    using g0 by (simp add: GetOneOption_def find_update_first)
  have "WithNetboot ?d1 = Inr ?d1"
    using g by (rule WithNetboot_fixpoint) (simp_all add: netboot_list_def)
  moreover have "parameter_request_list d = Some requested"
    using g0 by (simp add: parameter_request_list_def)
  ultimately show ?thesis
    using WithNetboot_present [OF g0] g
    by (simp add: parameter_request_list_def netboot_list_def)
qed

theorem WithNetboot_idempotent_witness:
  "list_all well_typed (options inform_message)
   \<and> parameter_request_list inform_message = None
   \<and> (\<exists>d1. WithNetboot inform_message = Inr d1 \<and> WithNetboot d1 = Inr d1
          \<and> parameter_request_list d1 = Some [OptionTFTPServerName, OptionBootfileName])
   \<and> list_all well_typed (options request_twice_tftp)
   \<and> (\<exists>d1. WithNetboot request_twice_tftp = Inr d1 \<and> WithNetboot d1 = Inr d1
          \<and> parameter_request_list d1 =
               Some [OptionTFTPServerName, OptionTFTPServerName, OptionBootfileName])"
proof -
  have a: "list_all well_typed (options inform_message)"
    by (simp add: inform_message_def new_message_def code_defs)
  have b: "list_all well_typed (options request_twice_tftp)"
    by (simp add: request_twice_tftp_def new_message_def code_defs)
  have c: "parameter_request_list inform_message = None"
    by (simp add: parameter_request_list_def GetOneOption_def inform_message_def
        new_message_def code_defs)
  have d: "parameter_request_list request_twice_tftp =
             Some [OptionTFTPServerName, OptionTFTPServerName]"
    by (simp add: parameter_request_list_def GetOneOption_def request_twice_tftp_def
        new_message_def code_defs)
  show ?thesis
    using WithNetboot_idempotent [OF a] WithNetboot_idempotent [OF b] a b
    by (simp add: c d code_defs)
qed

section \<open>The round trip of a message\<close>

text \<open>
  C1, as stated, fails: \<^verbatim>\<open>ToBytes\<close> writes the 4-byte form of each address and \<^verbatim>\<open>FromBytes\<close>
  keeps the four bytes it reads, so the message of \<^verbatim>\<open>New\<close>, whose addresses are
  \<^verbatim>\<open>net.IPv4zero\<close> in its 16-byte form, does not come back as it was.
\<close>

theorem FromBytes_ToBytes_address_form_counterexample:
  "legal new_message
   \<and> FromBytes (ToBytes new_message) \<noteq> Inr new_message
   \<and> clientIPAddr new_message = Some [0, 0, 0, 0, 0, 0, 0, 0, 0, 0, 0xff, 0xff, 0, 0, 0, 0]
   \<and> map_sum id clientIPAddr (FromBytes (ToBytes new_message)) = Inr (Some [0, 0, 0, 0])"
proof -
  have "clientIPAddr new_message = Some [0, 0, 0, 0, 0, 0, 0, 0, 0, 0, 0xff, 0xff, 0, 0, 0, 0]"
    by (simp add: new_message_def IPv4_def v4InV6Prefix_def)
  moreover have "To4 (clientIPAddr new_message) = Some [0, 0, 0, 0]"
    by (simp add: new_message_def To4_IPv4)
  moreover have "FromBytes (ToBytes new_message) \<noteq> Inr new_message"
  proof
    assume "FromBytes (ToBytes new_message) = Inr new_message"
    then have "clientIPAddr new_message = To4 (clientIPAddr new_message)"
      using FromBytes_ToBytes [OF legal_new_message]
      by (metis DHCPv4.select_convs(8) DHCPv4.surjective DHCPv4.update_convs(8,9,10,11) sum.inject(2))
    then show False
      using To4_IPv4 [of 0 0 0 0] by (simp add: new_message_def) (simp add: IPv4_def v4InV6Prefix_def)
  qed
  ultimately show ?thesis
    using legal_new_message by (simp add: FromBytes_ToBytes [OF legal_new_message])
qed

text \<open>
  C1, amended. Let \<open>m\<close> be a legal message: its arrays have their sizes, its four addresses
  convert to IPv4, and in its option list \<open>End\<close> occurs at most as the last option, a
  generic option has none of the codes of the dedicated variants (message type, parameter
  request list, requested address, server identifier, user class), no value when it is
  \<open>Pad\<close> or \<open>End\<close> and at most 255 bytes otherwise, a parameter request list has at most
  255 codes, the address of a requested address or a server identifier is a slice of
  exactly four bytes, and a user class is in the RFC 3004 encoding with at least one
  identifier, identifiers of 1 to 255 bytes and a value of at most 255 bytes. Then
  \<^verbatim>\<open>FromBytes\<close> succeeds on \<^verbatim>\<open>ToBytes m\<close> and gives \<open>m\<close> back field for field, with the option
  list in its order, except that each of the four addresses of the header comes back in its
  4-byte form, which is the same address (equal to the one of \<open>m\<close> by \<^verbatim>\<open>net.IP.Equal\<close>).
  A user class in the legacy encoding is not covered, and cannot be: its bytes do not
  determine its identifiers. Nor is a 16-byte address inside an option.
\<close>

theorem FromBytes_ToBytes_roundtrip:
  assumes "legal m"
  shows "FromBytes (ToBytes m) =
           Inr (m\<lparr>clientIPAddr := To4 (clientIPAddr m), yourIPAddr := To4 (yourIPAddr m),
                  serverIPAddr := To4 (serverIPAddr m),
                  gatewayIPAddr := To4 (gatewayIPAddr m)\<rparr>)
         \<and> IP_Equal (To4 (clientIPAddr m)) (clientIPAddr m)
         \<and> IP_Equal (To4 (yourIPAddr m)) (yourIPAddr m)
         \<and> IP_Equal (To4 (serverIPAddr m)) (serverIPAddr m)
         \<and> IP_Equal (To4 (gatewayIPAddr m)) (gatewayIPAddr m)"
  using assms FromBytes_ToBytes [OF assms]
  by (simp add: legal_def IPv4_convertible_def IP_Equal_To4)

theorem FromBytes_ToBytes_roundtrip_witness:
  "WithUserClass [0x69, 0x50, 0x58, 0x45] True inform_message = Inr inform_user_class
   \<and> legal inform_user_class
   \<and> FromBytes (ToBytes inform_user_class) =
       Inr (inform_user_class\<lparr>clientIPAddr := Some [192, 168, 0, 1],
                                yourIPAddr := Some [0, 0, 0, 0],
                                serverIPAddr := Some [0, 0, 0, 0],
                                gatewayIPAddr := Some [0, 0, 0, 0]\<rparr>)
   \<and> IP_Equal (Some [192, 168, 0, 1]) (IPv4 192 168 0 1)"
  using FromBytes_ToBytes_roundtrip [OF legal_inform_user_class] legal_inform_user_class
    WithUserClass_inform_message
  by (simp add: inform_user_class_def inform_message_def new_message_def To4_IPv4)

section \<open>Parsing an IAPrefix option\<close>

text \<open>
  C9. \<^verbatim>\<open>ParseOptIAPrefix\<close> returns a parse error for every payload shorter than 25 bytes and
  succeeds on every payload of 25 bytes or more; it reads the preferred lifetime, the valid
  lifetime (32 bits each, big-endian), the prefix length (one byte) and the 16 bytes of the
  prefix in that order, so that a payload written in that order is decoded to its fields.
\<close>

theorem ParseOptIAPrefix_length_and_layout:
  "(length data < 25 \<longrightarrow> ParseOptIAPrefix data = Inl ErrIAPrefixTooShort)
   \<and> (25 \<le> length data \<longrightarrow>
        ParseOptIAPrefix data =
          Inr \<lparr>preferredLifetime = BigEndian_Uint32 (slice 0 4 data),
               validLifetime = BigEndian_Uint32 (slice 4 8 data),
               prefixLength = data ! 8,
               ipv6Prefix = slice 9 25 data,
               iaprefix_options = drop 25 data\<rparr>)
   \<and> (length prefix = 16 \<longrightarrow>
        ParseOptIAPrefix
          (BigEndian_PutUint32 preferred @ BigEndian_PutUint32 valid @ [plen] @ prefix @ sub) =
          Inr \<lparr>preferredLifetime = preferred, validLifetime = valid, prefixLength = plen,
               ipv6Prefix = prefix, iaprefix_options = sub\<rparr>)"
  by (simp add: ParseOptIAPrefix_def slice_def length_BigEndian_PutUint32 nth_append
      BigEndian_Uint32_Put)

theorem ParseOptIAPrefix_length_and_layout_witness:
  "length iaprefix_truncated < 25
   \<and> ParseOptIAPrefix iaprefix_truncated = Inl ErrIAPrefixTooShort
   \<and> 25 \<le> length iaprefix_payload
   \<and> length [0, 0, 0, 0, 0, 0, 0, 0, 0, 0, 0, 0, 0, 0, 0, 1 :: byte] = 16
   \<and> ParseOptIAPrefix iaprefix_payload =
       Inr \<lparr>preferredLifetime = 0xaabbccdd, validLifetime = 0xeeff0011, prefixLength = 36,
            ipv6Prefix = [0, 0, 0, 0, 0, 0, 0, 0, 0, 0, 0, 0, 0, 0, 0, 1],
            iaprefix_options = []\<rparr>"
  using ParseOptIAPrefix_length_and_layout [of iaprefix_truncated
          "[0, 0, 0, 0, 0, 0, 0, 0, 0, 0, 0, 0, 0, 0, 0, 1]" "0xaabbccdd" "0xeeff0011" 36 "[]"]
  by (simp add: iaprefix_truncated_def iaprefix_payload_def BigEndian_PutUint32_examples)

section \<open>The replies the driver accepts\<close>

text \<open>
  C7, as stated, fails in its last part: a datagram that does not parse is not dropped. The
  loop goes on to \<^verbatim>\<open>response.TransactionID()\<close> with a nil response, so a datagram of three
  bytes before the offer ends the exchange in a panic, where the offer alone is accepted.
\<close>

theorem receive_path_drop_counterexample:
  "FromBytes (take MaxUDPReceivedPacketSize [1, 2, 3]) = Inl ErrHeaderTooShort
   \<and> receive_loop new_message MessageTypeOffer [ToBytes offer_two_servers]
       = Inr (in_IPv4_form offer_two_servers)
   \<and> receive_loop new_message MessageTypeOffer [[1, 2, 3], ToBytes offer_two_servers]
       = Inl Panic"
proof -
  have "FromBytes (take MaxUDPReceivedPacketSize [1, 2, 3]) = Inl ErrHeaderTooShort"
    by (simp add: FromBytes_def HeaderSize_def MaxUDPReceivedPacketSize_def)
  then show ?thesis
    by (simp add: receive_loop_offer del: receive_loop.simps)
      (simp add: receive_loop.simps(2) [of _ _ "[1, 2, 3]"])
qed

text \<open>
  C7, amended. A message \<^verbatim>\<open>BroadcastSendReceive\<close> returns is the parse of one of the datagrams
  read, has the transaction id of the packet sent and the opcode \<open>BOOTREPLY\<close> and, when
  a message type is expected, that message type; every datagram that parses to a message
  without these properties is dropped, the loop going on with the next one.
\<close>

theorem receive_path_correlation:
  "(BroadcastSendReceive net packet messageType = Inr response \<longrightarrow>
      accepted packet messageType response
      \<and> (\<exists>datagram\<in>set (datagrams net).
            FromBytes (take MaxUDPReceivedPacketSize datagram) = Inr response))
   \<and> (FromBytes (take MaxUDPReceivedPacketSize datagram) = Inr other
       \<and> \<not> accepted packet messageType other \<longrightarrow>
      receive_loop packet messageType (datagram # rest) = receive_loop packet messageType rest)"
  using receive_loop_Inr [of packet messageType "datagrams net" response]
    receive_loop_drop [of datagram other packet messageType rest]
  by (auto simp: BroadcastSendReceive_def split: if_splits)

theorem receive_path_correlation_witness:
  "BroadcastSendReceive network_example new_message MessageTypeOffer
     = Inr (in_IPv4_form offer_two_servers)
   \<and> transactionID (in_IPv4_form offer_two_servers) = transactionID new_message
   \<and> opcode (in_IPv4_form offer_two_servers) = OpcodeBootReply
   \<and> MessageType (in_IPv4_form offer_two_servers) = Inr (Some MessageTypeOffer)
   \<and> FromBytes (take MaxUDPReceivedPacketSize (ToBytes new_message))
       = Inr (in_IPv4_form new_message)
   \<and> opcode (in_IPv4_form new_message) \<noteq> OpcodeBootReply
   \<and> receive_loop new_message MessageTypeOffer
        [ToBytes new_message, ToBytes offer_two_servers]
       = receive_loop new_message MessageTypeOffer [ToBytes offer_two_servers]"
proof -
  have d: "receive_loop new_message MessageTypeOffer
             [ToBytes new_message, ToBytes offer_two_servers]
           = receive_loop new_message MessageTypeOffer [ToBytes offer_two_servers]"
    using receive_path_correlation [of network_example new_message MessageTypeOffer
        "in_IPv4_form offer_two_servers" "ToBytes new_message" "in_IPv4_form new_message"
        "[ToBytes offer_two_servers]"]
      datagram_new_message not_accepted_new_message
    by (simp del: receive_loop.simps)
  have "BroadcastSendReceive network_example new_message MessageTypeOffer
          = Inr (in_IPv4_form offer_two_servers)"
    using d
    by (simp add: BroadcastSendReceive_def network_example_def receive_loop_offer
        del: receive_loop.simps)
  moreover have "opcode (in_IPv4_form new_message) \<noteq> OpcodeBootReply"
    by (simp add: in_IPv4_form_def new_message_def OpcodeBootReply_def)
  ultimately show ?thesis
    using receive_path_correlation [of network_example new_message MessageTypeOffer
        "in_IPv4_form offer_two_servers" "ToBytes new_message" "in_IPv4_form new_message"
        "[ToBytes offer_two_servers]"]
      d datagram_new_message not_accepted_new_message accepted_offer_two_servers
    by (simp add: accepted_def MessageTypeOffer_def MessageTypeNone_def
        del: receive_loop.simps)
qed

end
